theory Spec2Isabelle
  imports
    Complex_Main
    "HOL-Library.Multiset"
    "HOL-Library.Char_ord"
    "HOL-Library.List_Lexorder"
begin

section \<open>Content-based movie recommender (analysis.ipynb)\<close>

text \<open>
  The notebook is a pandas pipeline over two relations, \<open>ratings\<close> and \<open>movies\<close>.
  Data frames are lists of rows (row order is the frame's order), float columns are
  exact reals, and the notebook's global variables form the record \<open>model\<close>.
  Exceptions are values of \<open>py_error\<close>.
\<close>

subsection \<open>Data\<close>

text \<open>
  \<open>KeyError\<close> and \<open>ValueError\<close> are the exceptions the pipeline can raise.
  \<open>NotANumber\<close> is not an exception: it marks a run in which a similarity score would be
  NaN or an infinity (a division by zero inside the cosine computation), with which Python
  would carry on; the model stops there.
\<close>

datatype py_error = KeyError | ValueError | NotANumber

text \<open>ratings.csv: userId, movieId, rating, timestamp.\<close>

record ratings_row =
  r_userId :: int
  r_movieId :: int
  r_rating :: real
  r_timestamp :: int

text \<open>movies.csv: movieId, title, genres.\<close>

record movies_row =
  m_movieId :: int
  m_title :: string
  m_genres :: string

text \<open>
  A row of \<open>ratings.merge(movies, on="movieId")\<close>; the type parameter is the type of
  the \<open>genres\<close> cell: a string at first, a list of strings after \<open>str.split\<close>, a string
  again after \<open>explode\<close>.
\<close>

record 'g merged_row =
  mg_userId :: int
  mg_movieId :: int
  mg_rating :: real
  mg_timestamp :: int
  mg_title :: string
  mg_genres :: 'g

text \<open>The columns every later frame shares, once \<open>timestamp\<close> is dropped.\<close>

record base_row =
  userId :: int
  movieId :: int
  rating :: real
  title :: string

text \<open>A row of \<open>df\<close> after cleaning: one row per (rating event, genre).\<close>

record df_row = base_row +
  genres :: string

text \<open>
  A row of \<open>df_genres\<close>: the \<open>genres\<close> column replaced by the indicator columns
  \<open>genres_*\<close>, held in column order.
\<close>

record dummies_row = base_row +
  dummies :: "int list"

text \<open>
  A row of \<open>movie_features\<close> (index \<open>movieId\<close>, then \<open>title\<close> and the genre columns), and
  a row of what \<open>recommend_movies\<close> returns, which has the \<open>similarity\<close> column too.
\<close>

record feature_row =
  f_movieId :: int
  f_title :: string
  f_vector :: "int list"

record rec_row = feature_row +
  similarity :: real

text \<open>
  \<open>movie_features\<close> as a table: its rows, and the \<open>similarity\<close> column, which is absent
  (\<open>None\<close>) until \<open>recommend_movies\<close> assigns it.
\<close>

record features_table =
  mf_rows :: "feature_row list"
  mf_similarity :: "real list option"

text \<open>
  A row of \<open>user_profiles\<close>. Dividing by a zero rating sum gives NaN or an infinity in
  every component (pandas does not raise); \<open>NonFinite\<close> stands for such a row.
\<close>

datatype profile = Finite "real list" | NonFinite

text \<open>The notebook's global variables after cell 30.\<close>

record model =
  df_genres :: "dummies_row list"
  genre_cols :: "string list"
  user_profiles :: "(int \<times> profile) list"
  movie_features :: features_table

subsection \<open>Cleaning (cells 7 to 21)\<close>

text \<open>
  \<open>ratings.merge(movies, on="movieId")\<close>: an inner join that keeps the order of the left
  rows, each with its matching right rows in their order.
\<close>

definition merge :: "ratings_row list \<Rightarrow> movies_row list \<Rightarrow> string merged_row list" where
  "merge ratings movies =
     concat (map (\<lambda>r. map (\<lambda>m. \<lparr>mg_userId = r_userId r, mg_movieId = r_movieId r,
                                  mg_rating = r_rating r, mg_timestamp = r_timestamp r,
                                  mg_title = m_title m, mg_genres = m_genres m\<rparr>)
                          (filter (\<lambda>m. m_movieId m = r_movieId r) movies)) ratings)"

text \<open>Python's \<open>s.split(sep)\<close> for a one-character separator: empty fields are kept.\<close>

fun str_split :: "char \<Rightarrow> string \<Rightarrow> string list" where
  "str_split sep [] = [[]]"
| "str_split sep (c # cs) =
     (if c = sep then [] # str_split sep cs
      else (case str_split sep cs of
              [] \<Rightarrow> [[c]]
            | w # ws \<Rightarrow> (c # w) # ws))"

definition split_genres :: "string merged_row \<Rightarrow> string list merged_row" where
  "split_genres r =
     \<lparr>mg_userId = mg_userId r, mg_movieId = mg_movieId r, mg_rating = mg_rating r,
      mg_timestamp = mg_timestamp r, mg_title = mg_title r,
      mg_genres = str_split (CHR ''|'') (mg_genres r)\<rparr>"

text \<open>\<open>df.explode("genres")\<close>: one row per list element, in list order.\<close>

definition explode :: "string list merged_row list \<Rightarrow> string merged_row list" where
  "explode rows =
     concat (map (\<lambda>r. map (\<lambda>g. \<lparr>mg_userId = mg_userId r, mg_movieId = mg_movieId r,
                                  mg_rating = mg_rating r, mg_timestamp = mg_timestamp r,
                                  mg_title = mg_title r, mg_genres = g\<rparr>)
                          (mg_genres r)) rows)"

text \<open>\<open>df.drop("timestamp", axis=1)\<close>.\<close>

definition drop_timestamp :: "string merged_row \<Rightarrow> df_row" where
  "drop_timestamp r =
     \<lparr>userId = mg_userId r, movieId = mg_movieId r, rating = mg_rating r,
      title = mg_title r, genres = mg_genres r\<rparr>"

text \<open>
  \<open>drop_duplicates(subset)\<close> with the default \<open>keep="first"\<close>: the first row of every
  key survives, in the frame's order. Without a subset the key is the whole row.
\<close>

fun drop_duplicates :: "('a \<Rightarrow> 'k) \<Rightarrow> 'a list \<Rightarrow> 'a list" where
  "drop_duplicates key [] = []"
| "drop_duplicates key (x # xs) =
     x # drop_duplicates key (filter (\<lambda>y. key y \<noteq> key x) xs)"

definition no_genres :: string where
  "no_genres = ''(no genres listed)''"

text \<open>Cells 7, 14, 16 and 21 in sequence.\<close>

definition clean :: "ratings_row list \<Rightarrow> movies_row list \<Rightarrow> df_row list" where
  "clean ratings movies =
     filter (\<lambda>r. genres r \<noteq> no_genres)
       (drop_duplicates (\<lambda>r. r)
          (map drop_timestamp (explode (map split_genres (merge ratings movies)))))"

subsection \<open>Feature engineering and user profiles (cells 23 to 28)\<close>

text \<open>
  \<open>pd.get_dummies(df, columns=["genres"], dtype=int)\<close>: one indicator column per
  distinct value of \<open>genres\<close>, the columns in sorted order of the values.
\<close>

definition vocabulary :: "df_row list \<Rightarrow> string list" where
  "vocabulary df = sort (remdups (map genres df))"

definition one_hot :: "string list \<Rightarrow> string \<Rightarrow> int list" where
  "one_hot vocab g = map (\<lambda>v. if g = v then 1 else 0) vocab"

definition get_dummies :: "df_row list \<Rightarrow> dummies_row list" where
  "get_dummies df =
     map (\<lambda>r. \<lparr>userId = userId r, movieId = movieId r, rating = rating r,
                title = title r, dummies = one_hot (vocabulary df) (genres r)\<rparr>) df"

text \<open>The names of the indicator columns, \<open>genres_<value>\<close>.\<close>

definition dummy_columns :: "df_row list \<Rightarrow> string list" where
  "dummy_columns df = map (\<lambda>g. ''genres_'' @ g) (vocabulary df)"

text \<open>Column sums of a frame with \<open>n\<close> columns (\<open>DataFrame.sum()\<close>).\<close>

definition sum_columns :: "nat \<Rightarrow> real list list \<Rightarrow> real list" where
  "sum_columns n rows = foldr (\<lambda>row acc. map2 (+) row acc) rows (replicate n 0)"

text \<open>
  \<open>get_user_profile(user_df)\<close>: the genre columns weighted by the row's rating, summed
  by column, divided by the sum of the \<open>rating\<close> column of the same frame.
\<close>

definition get_user_profile :: "nat \<Rightarrow> dummies_row list \<Rightarrow> profile" where
  "get_user_profile n user_df =
     (let rated_genres = map (\<lambda>r. map (\<lambda>d. real_of_int d * rating r) (dummies r)) user_df;
          total = sum_list (map rating user_df)
      in if total = 0 then NonFinite
         else Finite (map (\<lambda>x. x / total) (sum_columns n rated_genres)))"

text \<open>\<open>df_genres.groupby("userId").apply(get_user_profile)\<close>: one row per user, by user id.\<close>

definition build_user_profiles :: "nat \<Rightarrow> dummies_row list \<Rightarrow> (int \<times> profile) list" where
  "build_user_profiles n dfg =
     map (\<lambda>u. (u, get_user_profile n (filter (\<lambda>r. userId r = u) dfg)))
         (sort (remdups (map userId dfg)))"

subsection \<open>The catalog and the model (cell 30)\<close>

text \<open>
  \<open>df_genres.drop_duplicates("movieId")[["movieId", "title"] + genre_cols]
  .set_index("movieId")\<close>.
\<close>

definition build_movie_features :: "dummies_row list \<Rightarrow> features_table" where
  "build_movie_features dfg =
     \<lparr>mf_rows = map (\<lambda>r. \<lparr>f_movieId = movieId r, f_title = title r, f_vector = dummies r\<rparr>)
                    (drop_duplicates movieId dfg),
      mf_similarity = None\<rparr>"

definition build_model :: "ratings_row list \<Rightarrow> movies_row list \<Rightarrow> model" where
  "build_model ratings movies =
     (let df = clean ratings movies;
          dfg = get_dummies df;
          cols = dummy_columns df
      in \<lparr>df_genres = dfg, genre_cols = cols,
          user_profiles = build_user_profiles (length cols) dfg,
          movie_features = build_movie_features dfg\<rparr>)"

subsection \<open>Cosine similarity (sklearn.metrics.pairwise)\<close>

text \<open>
  \<open>cosine_similarity(X, Y)\<close> of scikit-learn, for a single query row: the inputs are
  validated (a non-finite value, an empty \<open>Y\<close>, no feature at all or rows of different
  widths raise \<open>ValueError\<close>), the query row and every row of \<open>Y\<close> are divided by their
  Euclidean norms, a zero norm being replaced by 1 first, and the result is the list of
  dot products.
\<close>

definition dot :: "real list \<Rightarrow> real list \<Rightarrow> real" where
  "dot a b = sum_list (map2 (*) a b)"

definition l2_norm :: "real list \<Rightarrow> real" where
  "l2_norm v = sqrt (dot v v)"

text \<open>
  Division of floats: by zero it gives NaN or an infinity and no exception; \<open>None\<close> stands
  for such a value.
\<close>

definition float_div :: "real \<Rightarrow> real \<Rightarrow> real option" where
  "float_div x y = (if y = 0 then None else Some (x / y))"

text \<open>\<open>_handle_zeros_in_scale\<close>: a zero norm is replaced by 1.\<close>

definition handle_zeros_in_scale :: "real \<Rightarrow> real" where
  "handle_zeros_in_scale n = (if n = 0 then 1 else n)"

text \<open>\<open>normalize(X)\<close> for one row; \<open>None\<close> when a component is not a real number.\<close>

definition normalize_l2 :: "real list \<Rightarrow> real list option" where
  "normalize_l2 v = those (map (\<lambda>x. float_div x (handle_zeros_in_scale (l2_norm v))) v)"

definition cosine_similarity :: "profile \<Rightarrow> real list list \<Rightarrow> py_error + real list" where
  "cosine_similarity x ys =
     (case x of
        NonFinite \<Rightarrow> Inl ValueError
      | Finite a \<Rightarrow>
          if ys = [] \<or> a = [] \<or> (\<exists>b \<in> set ys. length b \<noteq> length a) then Inl ValueError
          else (case (normalize_l2 a, those (map normalize_l2 ys)) of
                  (Some x_normalized, Some y_normalized) \<Rightarrow>
                    Inr (map (dot x_normalized) y_normalized)
                | _ \<Rightarrow> Inl NotANumber))"

subsection \<open>Queries (cells 30 and 32)\<close>

text \<open>\<open>DataFrame.head(n)\<close>: the first \<open>n\<close> rows, or all but the last \<open>-n\<close> when \<open>n < 0\<close>.\<close>

definition head :: "int \<Rightarrow> 'a list \<Rightarrow> 'a list" where
  "head n xs = (if 0 \<le> n then take (nat n) xs else take (length xs - nat (- n)) xs)"

text \<open>
  \<open>sort_values("similarity", ascending=False)\<close> uses the default, unstable sorting kind:
  the result is a rearrangement of the rows by non-increasing similarity, and the order
  of rows with equal similarity is left open. The queries take the sorting procedure as
  a parameter \<open>srt\<close>; \<open>sort_values_desc srt\<close> says that it is such a procedure.
\<close>

definition sort_values_desc :: "(rec_row list \<Rightarrow> rec_row list) \<Rightarrow> bool" where
  "sort_values_desc srt \<longleftrightarrow>
     (\<forall>xs. mset (srt xs) = mset xs \<and>
           sorted_wrt (\<lambda>a b. similarity a \<ge> similarity b) (srt xs))"

text \<open>
  One such procedure, used to run the queries: the stable one, which leaves rows of
  equal similarity in frame order.
\<close>

fun insert_desc :: "rec_row \<Rightarrow> rec_row list \<Rightarrow> rec_row list" where
  "insert_desc x [] = [x]"
| "insert_desc x (y # ys) =
     (if similarity x < similarity y then y # insert_desc x ys else x # y # ys)"

definition stable_sort_desc :: "rec_row list \<Rightarrow> rec_row list" where
  "stable_sort_desc xs = foldr insert_desc xs []"

definition with_similarity :: "feature_row \<Rightarrow> real \<Rightarrow> rec_row" where
  "with_similarity r s =
     \<lparr>f_movieId = f_movieId r, f_title = f_title r, f_vector = f_vector r, similarity = s\<rparr>"

text \<open>
  \<open>recommend_movies(user_id, top_n)\<close>. \<open>user_profiles.loc[user_id]\<close> raises \<open>KeyError\<close>
  for an unknown user. The assignment \<open>movie_features["similarity"] = ...\<close> writes to
  the global table, so the function returns the new globals with its result.
\<close>

definition recommend_movies ::
  "(rec_row list \<Rightarrow> rec_row list) \<Rightarrow> model \<Rightarrow> int \<Rightarrow> int \<Rightarrow> (py_error + rec_row list) \<times> model" where
  "recommend_movies srt st user_id top_n =
     (case map_of (user_profiles st) user_id of
        None \<Rightarrow> (Inl KeyError, st)
      | Some user_vector \<Rightarrow>
          let movie_vectors = map (\<lambda>r. map real_of_int (f_vector r)) (mf_rows (movie_features st))
          in (case cosine_similarity user_vector movie_vectors of
                Inl e \<Rightarrow> (Inl e, st)
              | Inr similarity_scores \<Rightarrow>
                  let st' = st\<lparr>movie_features :=
                                 (movie_features st)\<lparr>mf_similarity := Some similarity_scores\<rparr>\<rparr>;
                      already_rated = map movieId (filter (\<lambda>r. userId r = user_id) (df_genres st));
                      recommendations =
                        filter (\<lambda>r. f_movieId r \<notin> set already_rated)
                          (map2 with_similarity (mf_rows (movie_features st)) similarity_scores)
                  in (Inr (head top_n (srt recommendations)), st')))"

text \<open>
  \<open>predict_rating(user_id, movie_id)\<close>: both \<open>.loc\<close> lookups raise \<open>KeyError\<close> for a missing
  label; nothing is assigned. \<open>cosine_similarity\<close> returns one score for one movie row and
  only for a finite profile, so the last branch below is never taken.
\<close>

definition predict_rating :: "model \<Rightarrow> int \<Rightarrow> int \<Rightarrow> py_error + real" where
  "predict_rating st user_id movie_id =
     (case map_of (user_profiles st) user_id of
        None \<Rightarrow> Inl KeyError
      | Some user_vector \<Rightarrow>
          (case find (\<lambda>r. f_movieId r = movie_id) (mf_rows (movie_features st)) of
             None \<Rightarrow> Inl KeyError
           | Some row \<Rightarrow>
               (case cosine_similarity user_vector [map real_of_int (f_vector row)] of
                  Inl e \<Rightarrow> Inl e
                | Inr scores \<Rightarrow>
                    (case (scores, user_vector) of
                       (similarity_score # _, Finite v) \<Rightarrow> Inr (similarity_score * sum_list v)
                     | _ \<Rightarrow> Inl ValueError))))"

subsection \<open>Notions used to state the properties\<close>

text \<open>
  The row of \<open>df\<close> that one rating event, one matching movie row and one genre label of
  that movie give; used to describe the cleaned frame.
\<close>

definition df_of :: "ratings_row \<Rightarrow> movies_row \<Rightarrow> string \<Rightarrow> df_row" where
  "df_of rt mv g = \<lparr>userId = r_userId rt, movieId = r_movieId rt, rating = r_rating rt,
                    title = m_title mv, genres = g\<rparr>"

text \<open>The raw rating events of one user, in the order of \<open>ratings\<close>.\<close>

definition user_events :: "ratings_row list \<Rightarrow> int \<Rightarrow> ratings_row list" where
  "user_events ratings u = filter (\<lambda>rt. r_userId rt = u) ratings"

text \<open>
  The genre labels of a movie id in \<open>movies\<close>, each once and without the "no genres"
  marker, and the movie's full indicator vector over a vocabulary: 1 for every label
  of the movie.
\<close>

definition movie_genres :: "movies_row list \<Rightarrow> int \<Rightarrow> string list" where
  "movie_genres movies m =
     remdups (filter (\<lambda>g. g \<noteq> no_genres)
       (concat (map (\<lambda>mv. str_split (CHR ''|'') (m_genres mv))
                    (filter (\<lambda>mv. m_movieId mv = m) movies))))"

definition genre_vector :: "string list \<Rightarrow> movies_row list \<Rightarrow> int \<Rightarrow> real list" where
  "genre_vector vocab movies m =
     map (\<lambda>g. if g \<in> set (movie_genres movies m) then 1 else 0) vocab"

text \<open>No two different rows of \<open>movies\<close> have the same movie id.\<close>

definition unique_movie_ids :: "movies_row list \<Rightarrow> bool" where
  "unique_movie_ids movies \<longleftrightarrow> distinct (map m_movieId (remdups movies))"

text \<open>
  The catalog that \<open>movie_features\<close> holds, as a mapping from movie id to title and
  genre vector.
\<close>

definition catalog :: "model \<Rightarrow> int \<rightharpoonup> string \<times> int list" where
  "catalog st = map_of (map (\<lambda>r. (f_movieId r, (f_title r, f_vector r))) (mf_rows (movie_features st)))"

text \<open>
  The cosine of the angle between two vectors, 0 by convention when one of them has zero
  norm: the value the specification calls their similarity.
\<close>

definition cosine :: "real list \<Rightarrow> real list \<Rightarrow> real" where
  "cosine a b =
     (if l2_norm a = 0 \<or> l2_norm b = 0 then 0 else dot a b / (l2_norm a * l2_norm b))"

text \<open>A row divided by its norm, or left as it is when the norm is zero.\<close>

definition unit_row :: "real list \<Rightarrow> real list" where
  "unit_row v = map (\<lambda>x. x / handle_zeros_in_scale (l2_norm v)) v"

text \<open>
  The movie ids of the rating events whose movie has a genre, in the order of the events.
\<close>

definition rated_with_genres :: "ratings_row list \<Rightarrow> movies_row list \<Rightarrow> int list" where
  "rated_with_genres ratings movies =
     filter (\<lambda>m. movie_genres movies m \<noteq> []) (map r_movieId ratings)"

text \<open>The globals with the \<open>similarity\<close> column of \<open>movie_features\<close> replaced.\<close>

definition set_similarity :: "real list option \<Rightarrow> model \<Rightarrow> model" where
  "set_similarity s st = st\<lparr>movie_features := (movie_features st)\<lparr>mf_similarity := s\<rparr>\<rparr>"

text \<open>
  What \<open>recommend_movies\<close> sorts for a user with the finite profile \<open>v\<close>: the rows of
  \<open>movie_features\<close> with their scores, less the movies of the user's rows of \<open>df_genres\<close>.
\<close>

definition candidates :: "model \<Rightarrow> int \<Rightarrow> real list \<Rightarrow> rec_row list" where
  "candidates st u v =
     filter (\<lambda>r. f_movieId r \<notin> set (map movieId (filter (\<lambda>r. userId r = u) (df_genres st))))
       (map (\<lambda>r. with_similarity r (cosine v (map real_of_int (f_vector r))))
            (mf_rows (movie_features st)))"

text \<open>
  The order the specification asks of a list of recommendations: by similarity, larger
  first, and by movie id, smaller first, among rows of equal similarity.
\<close>

definition by_score_then_id :: "rec_row \<Rightarrow> rec_row \<Rightarrow> bool" where
  "by_score_then_id a b \<longleftrightarrow>
     similarity b < similarity a \<or> (similarity a = similarity b \<and> f_movieId a < f_movieId b)"

subsection \<open>Sample inputs\<close>

text \<open>
  The scenario of the specification: three movies, one user who rated the first with 4
  and the second with 2.
\<close>

definition spec_movies :: "movies_row list" where
  "spec_movies = [\<lparr>m_movieId = 1, m_title = ''M1'', m_genres = ''Action|Comedy''\<rparr>,
                  \<lparr>m_movieId = 2, m_title = ''M2'', m_genres = ''Comedy''\<rparr>,
                  \<lparr>m_movieId = 3, m_title = ''M3'', m_genres = ''Action''\<rparr>]"

definition spec_ratings :: "ratings_row list" where
  "spec_ratings = [\<lparr>r_userId = 1, r_movieId = 1, r_rating = 4, r_timestamp = 0\<rparr>,
                   \<lparr>r_userId = 1, r_movieId = 2, r_rating = 2, r_timestamp = 0\<rparr>]"

text \<open>One movie, rated 1/2 by one user.\<close>

definition low_movies :: "movies_row list" where
  "low_movies = [\<lparr>m_movieId = 1, m_title = ''M1'', m_genres = ''Action''\<rparr>]"

definition low_ratings :: "ratings_row list" where
  "low_ratings = [\<lparr>r_userId = 1, r_movieId = 1, r_rating = 1 / 2, r_timestamp = 0\<rparr>]"

text \<open>The same movie, rated 0 by one user.\<close>

definition zero_ratings :: "ratings_row list" where
  "zero_ratings = [\<lparr>r_userId = 1, r_movieId = 1, r_rating = 0, r_timestamp = 0\<rparr>]"

text \<open>
  Three movies of one genre and one without genres; user 2 rated movie 7, then movie 3;
  user 1 rated movie 10 and the movie without genres.
\<close>

definition tie_movies :: "movies_row list" where
  "tie_movies = [\<lparr>m_movieId = 3, m_title = ''M3'', m_genres = ''Action''\<rparr>,
                 \<lparr>m_movieId = 7, m_title = ''M7'', m_genres = ''Action''\<rparr>,
                 \<lparr>m_movieId = 10, m_title = ''M10'', m_genres = ''Action''\<rparr>,
                 \<lparr>m_movieId = 11, m_title = ''M11'', m_genres = ''(no genres listed)''\<rparr>]"

definition tie_ratings :: "ratings_row list" where
  "tie_ratings = [\<lparr>r_userId = 2, r_movieId = 7, r_rating = 5, r_timestamp = 0\<rparr>,
                  \<lparr>r_userId = 2, r_movieId = 3, r_rating = 5, r_timestamp = 0\<rparr>,
                  \<lparr>r_userId = 1, r_movieId = 10, r_rating = 5, r_timestamp = 0\<rparr>,
                  \<lparr>r_userId = 1, r_movieId = 11, r_rating = 3, r_timestamp = 0\<rparr>]"

text \<open>Two movie rows with the same id and different genres, rated once.\<close>

definition dup_movies :: "movies_row list" where
  "dup_movies = [\<lparr>m_movieId = 1, m_title = ''M1'', m_genres = ''Action''\<rparr>,
                 \<lparr>m_movieId = 1, m_title = ''M1'', m_genres = ''Comedy''\<rparr>]"

definition dup_ratings :: "ratings_row list" where
  "dup_ratings = [\<lparr>r_userId = 1, r_movieId = 1, r_rating = 5, r_timestamp = 0\<rparr>]"

section \<open>Properties of the pipeline\<close>

subsection \<open>Dot products and cosine similarity\<close>

lemma dot_Nil [simp]: "dot [] b = 0" "dot a [] = 0"
  by (simp_all add: dot_def)

lemma dot_Cons [simp]: "dot (x # a) (y # b) = x * y + dot a b"
  by (simp add: dot_def)

lemma dot_self_nonneg: "0 \<le> dot v v"
  by (induction v) auto

lemma two_dot_le: "2 * dot a b \<le> dot a a + dot b b"
proof (induction a arbitrary: b)
  case Nil
  then show ?case by (simp add: dot_self_nonneg)
next
  case (Cons x a)
  show ?case
  proof (cases b)
    case Nil
    then show ?thesis using dot_self_nonneg [of "x # a"] by simp
  next
    case (Cons y b')
    have "2 * (x * y) \<le> x * x + y * y" using sum_squares_bound [of x y] by (simp add: power2_eq_square)
    then show ?thesis using Cons Cons.IH [of b'] by simp
  qed
qed

lemma dot_neg_left: "dot (map uminus a) b = - dot a b"
proof (induction a arbitrary: b)
  case Nil
  show ?case by simp
next
  case (Cons x a)
  then show ?case by (cases b) simp_all
qed

lemma dot_neg_right: "dot a (map uminus b) = - dot a b"
proof (induction a arbitrary: b)
  case Nil
  show ?case by simp
next
  case (Cons x a)
  then show ?case by (cases b) simp_all
qed

lemma dot_scale: "dot (map (\<lambda>x. x / c) a) (map (\<lambda>x. x / d) b) = dot a b / (c * d)"
proof (induction a arbitrary: b)
  case Nil
  show ?case by simp
next
  case (Cons x a)
  then show ?case by (cases b) (simp_all add: add_divide_distrib)
qed

lemma dot_unit_row_self: "dot (unit_row v) (unit_row v) = (if l2_norm v = 0 then 0 else 1)"
proof (cases "l2_norm v = 0")
  case True
  then have "dot v v = 0" by (simp add: l2_norm_def)
  then show ?thesis using True by (simp add: unit_row_def handle_zeros_in_scale_def dot_scale)
next
  case False
  have "l2_norm v * l2_norm v = dot v v"
    by (simp add: l2_norm_def dot_self_nonneg)
  moreover have "dot v v \<noteq> 0" using False by (auto simp: l2_norm_def)
  ultimately show ?thesis using False by (simp add: unit_row_def handle_zeros_in_scale_def dot_scale)
qed

lemma dot_self_zero: "dot v v = 0 \<Longrightarrow> dot v w = 0"
proof (induction v arbitrary: w)
  case Nil
  show ?case by simp
next
  case (Cons x v)
  have "0 \<le> dot v v" "0 \<le> x * x" by (simp_all add: dot_self_nonneg)
  with Cons.prems have "x = 0" "dot v v = 0" by (simp_all add: add_nonneg_eq_0_iff)
  with Cons.IH show ?case by (cases w) simp_all
qed

lemma dot_commute: "dot a b = dot b a"
proof (induction a arbitrary: b)
  case Nil
  show ?case by simp
next
  case (Cons x a)
  then show ?case by (cases b) simp_all
qed

lemma cosine_zero_norm: "l2_norm a = 0 \<or> l2_norm b = 0 \<Longrightarrow> cosine a b = 0"
  by (simp add: cosine_def)

text \<open>The dot product of the two scaled rows is the cosine.\<close>

lemma cosine_unit: "cosine a b = dot (unit_row a) (unit_row b)"
proof -
  have z: "dot (unit_row v) w = 0" if "l2_norm v = 0" for v w
  proof -
    from that have "dot (unit_row v) (unit_row v) = 0" by (simp add: dot_unit_row_self)
    then show ?thesis by (rule dot_self_zero)
  qed
  consider "l2_norm a = 0" | "l2_norm b = 0" | "l2_norm a \<noteq> 0" "l2_norm b \<noteq> 0" by blast
  then show ?thesis
  proof cases
    case 1
    then show ?thesis by (simp add: cosine_def z)
  next
    case 2
    then have "dot (unit_row b) (unit_row a) = 0" by (rule z)
    with 2 show ?thesis by (simp add: cosine_def dot_commute)
  next
    case 3
    then show ?thesis
      by (simp add: cosine_def unit_row_def handle_zeros_in_scale_def dot_scale)
  qed
qed

text \<open>No division of the normalisation is by zero: it returns the scaled row.\<close>

lemma those_map_Some: "those (map (\<lambda>x. Some (f x)) xs) = Some (map f xs)"
  by (induction xs) simp_all

lemma handle_zeros_in_scale_nonzero: "handle_zeros_in_scale n \<noteq> 0"
  by (simp add: handle_zeros_in_scale_def)

lemma normalize_l2_Some: "normalize_l2 v = Some (unit_row v)"
  by (simp add: normalize_l2_def unit_row_def float_div_def handle_zeros_in_scale_nonzero
      those_map_Some)

lemma cosine_similarity_Finite:
  assumes "ys \<noteq> []" and "a \<noteq> []" and "\<forall>b \<in> set ys. length b = length a"
  shows "cosine_similarity (Finite a) ys = Inr (map (cosine a) ys)"
proof -
  have "those (map normalize_l2 ys) = Some (map unit_row ys)"
    by (induction ys) (simp_all add: normalize_l2_Some)
  with assms show ?thesis
    by (simp add: cosine_similarity_def normalize_l2_Some cosine_unit)
qed

lemma cosine_le_one: "cosine a b \<le> 1"
proof -
  have "2 * cosine a b \<le> dot (unit_row a) (unit_row a) + dot (unit_row b) (unit_row b)"
    unfolding cosine_unit by (rule two_dot_le)
  also have "\<dots> \<le> 2" by (simp add: dot_unit_row_self)
  finally show ?thesis by simp
qed

lemma cosine_ge_minus_one: "- 1 \<le> cosine a b"
proof -
  have "2 * dot (map uminus (unit_row a)) (unit_row b)
        \<le> dot (map uminus (unit_row a)) (map uminus (unit_row a)) + dot (unit_row b) (unit_row b)"
    by (rule two_dot_le)
  also have "dot (map uminus (unit_row a)) (map uminus (unit_row a)) = dot (unit_row a) (unit_row a)"
    by (simp add: dot_neg_left dot_neg_right)
  finally have "- 2 * cosine a b \<le> 2"
    by (simp add: dot_neg_left cosine_unit dot_unit_row_self split: if_splits)
  then show ?thesis by simp
qed

subsection \<open>Dropping duplicates and the cleaned frame\<close>

lemma set_drop_duplicates_subset: "set (drop_duplicates key xs) \<subseteq> set xs"
  by (induction key xs rule: drop_duplicates.induct) auto

lemma set_drop_duplicates [simp]: "set (drop_duplicates (\<lambda>r. r) xs) = set xs"
  by (induction "\<lambda>r::'a. r" xs rule: drop_duplicates.induct) auto

lemma keys_drop_duplicates: "key ` set (drop_duplicates key xs) = key ` set xs"
  by (induction key xs rule: drop_duplicates.induct) auto

lemma distinct_drop_duplicates: "distinct (map key (drop_duplicates key xs))"
proof (induction key xs rule: drop_duplicates.induct)
  case (1 key)
  show ?case by simp
next
  case (2 key x xs)
  have "key x \<notin> key ` set (drop_duplicates key (filter (\<lambda>y. key y \<noteq> key x) xs))"
    using set_drop_duplicates_subset [of key "filter (\<lambda>y. key y \<noteq> key x) xs"] by auto
  with 2 show ?case by simp
qed

lemma find_filter: "find P (filter Q xs) = find (\<lambda>x. Q x \<and> P x) xs"
  by (induction xs) auto

lemma find_drop_duplicates: "find (\<lambda>r. key r = k) (drop_duplicates key xs) = find (\<lambda>r. key r = k) xs"
proof (induction key xs rule: drop_duplicates.induct)
  case (1 key)
  show ?case by simp
next
  case (2 key x xs)
  show ?case
  proof (cases "key x = k")
    case True
    then show ?thesis by simp
  next
    case False
    have "find (\<lambda>r. key r \<noteq> key x \<and> key r = k) xs = find (\<lambda>r. key r = k) xs"
      using False by (intro find_cong) auto
    with 2 False show ?thesis by (simp add: find_filter)
  qed
qed

lemma find_drop_duplicates_id: "find P (drop_duplicates (\<lambda>r. r) xs) = find P xs"
proof (induction "\<lambda>r::'a. r" xs rule: drop_duplicates.induct)
  case 1
  show ?case by simp
next
  case (2 x xs)
  show ?case
  proof (cases "P x")
    case True
    then show ?thesis by simp
  next
    case False
    have "find (\<lambda>r. r \<noteq> x \<and> P r) xs = find P xs"
      using False by (intro find_cong) auto
    with 2 False show ?thesis by (simp add: find_filter)
  qed
qed

lemma df_of_sel [simp]:
  "userId (df_of rt mv g) = r_userId rt" "movieId (df_of rt mv g) = r_movieId rt"
  "rating (df_of rt mv g) = r_rating rt" "title (df_of rt mv g) = m_title mv"
  "genres (df_of rt mv g) = g"
  by (simp_all add: df_of_def)

lemma exploded_eq:
  "map drop_timestamp (explode (map split_genres (merge R M))) =
   concat (map (\<lambda>rt. concat (map (\<lambda>mv. map (df_of rt mv) (str_split (CHR ''|'') (m_genres mv)))
                                   (filter (\<lambda>mv. m_movieId mv = r_movieId rt) M))) R)"
  by (induction R) (simp_all add: merge_def explode_def split_genres_def drop_timestamp_def df_of_def
      map_concat comp_def)

lemma set_clean:
  "set (clean R M) =
   {df_of rt mv g | rt mv g. rt \<in> set R \<and> mv \<in> set M \<and> m_movieId mv = r_movieId rt \<and>
      g \<in> set (str_split (CHR ''|'') (m_genres mv)) \<and> g \<noteq> no_genres}"
  unfolding clean_def exploded_eq by fastforce

lemma distinct_drop_duplicates_id: "distinct (drop_duplicates (\<lambda>r. r) xs)"
  using distinct_drop_duplicates [of "\<lambda>r. r" xs] by simp

lemma distinct_clean: "distinct (clean R M)"
  by (simp add: clean_def distinct_drop_duplicates_id)

subsection \<open>Indicator columns and column sums\<close>

lemma set_vocabulary [simp]: "set (vocabulary df) = genres ` set df"
  by (simp add: vocabulary_def)

lemma distinct_vocabulary [simp]: "distinct (vocabulary df)"
  by (simp add: vocabulary_def)

lemma sorted_vocabulary [simp]: "sorted (vocabulary df)"
  by (simp add: vocabulary_def)

lemma length_one_hot [simp]: "length (one_hot vocab g) = length vocab"
  by (simp add: one_hot_def)

lemma sum_list_one_hot: "distinct vocab \<Longrightarrow> sum_list (one_hot vocab g) = (if g \<in> set vocab then 1 else 0)"
  by (induction vocab) (auto simp: one_hot_def)

lemma length_sum_columns:
  "\<forall>row \<in> set rows. length row = n \<Longrightarrow> length (sum_columns n rows) = n"
  by (induction rows) (simp_all add: sum_columns_def)

lemma sum_list_map2_add:
  "length a = length b \<Longrightarrow> sum_list (map2 (+) a b) = sum_list a + sum_list (b :: real list)"
  by (induction a b rule: list_induct2) simp_all

lemma sum_list_sum_columns:
  "\<forall>row \<in> set rows. length row = n \<Longrightarrow>
   sum_list (sum_columns n rows) = sum_list (map sum_list rows)"
proof (induction rows)
  case Nil
  show ?case by (simp add: sum_columns_def sum_list_replicate)
next
  case (Cons row rows)
  then have len: "length (sum_columns n rows) = length row"
    by (simp add: length_sum_columns)
  have "sum_columns n (row # rows) = map2 (+) row (sum_columns n rows)"
    by (simp add: sum_columns_def)
  with Cons len show ?case by (simp add: sum_list_map2_add)
qed

lemma nth_sum_columns:
  "\<forall>row \<in> set rows. length row = n \<Longrightarrow> j < n \<Longrightarrow>
   sum_columns n rows ! j = sum_list (map (\<lambda>row. row ! j) rows)"
proof (induction rows)
  case Nil
  then show ?case by (simp add: sum_columns_def)
next
  case (Cons row rows)
  then have len: "length (sum_columns n rows) = n" "length row = n"
    by (simp_all add: length_sum_columns)
  have "sum_columns n (row # rows) = map2 (+) row (sum_columns n rows)"
    by (simp add: sum_columns_def)
  with Cons len show ?case by simp
qed

lemma build_model_sel:
  "df_genres (build_model R M) = get_dummies (clean R M)"
  "genre_cols (build_model R M) = dummy_columns (clean R M)"
  "user_profiles (build_model R M) =
     build_user_profiles (length (vocabulary (clean R M))) (get_dummies (clean R M))"
  "movie_features (build_model R M) = build_movie_features (get_dummies (clean R M))"
  by (simp_all add: build_model_def Let_def dummy_columns_def)

lemma map_of_build_user_profiles:
  "map_of (build_user_profiles n dfg) u =
     (if u \<in> userId ` set dfg then Some (get_user_profile n (filter (\<lambda>r. userId r = u) dfg))
      else None)"
  by (auto simp: build_user_profiles_def map_of_map_restrict restrict_map_def)

lemma get_dummies_sel:
  "r \<in> set (get_dummies df) \<Longrightarrow>
   \<exists>r0 \<in> set df. userId r = userId r0 \<and> movieId r = movieId r0 \<and> rating r = rating r0 \<and>
      title r = title r0 \<and> dummies r = one_hot (vocabulary df) (genres r0)"
  by (auto simp: get_dummies_def)

lemma userId_get_dummies [simp]: "map userId (get_dummies df) = map userId df"
  by (simp add: get_dummies_def comp_def)

lemma movieId_get_dummies [simp]: "map movieId (get_dummies df) = map movieId df"
  by (simp add: get_dummies_def comp_def)

lemma length_dummies: "r \<in> set (get_dummies df) \<Longrightarrow> length (dummies r) = length (vocabulary df)"
  by (auto simp: get_dummies_def)

lemma sum_dummies: "r \<in> set (get_dummies df) \<Longrightarrow> sum_list (dummies r) = 1"
  by (auto simp: get_dummies_def sum_list_one_hot)

lemma rating_clean_pos:
  "\<forall>rt \<in> set R. 0 < r_rating rt \<Longrightarrow> r \<in> set (clean R M) \<Longrightarrow> 0 < rating r"
  by (auto simp: set_clean)

lemma sum_list_weighted: "sum_list (map (\<lambda>d. real_of_int d * c) ds) = real_of_int (sum_list ds) * c"
  by (induction ds) (simp_all add: algebra_simps)

lemma sum_list_divide: "sum_list (map (\<lambda>x. x / c) xs) = sum_list xs / (c::real)"
  by (induction xs) (simp_all add: add_divide_distrib)

lemma profile_sum:
  assumes "set user_df \<subseteq> set (get_dummies df)"
    and "get_user_profile (length (vocabulary df)) user_df = Finite v"
  shows "sum_list v = 1"
proof -
  let ?n = "length (vocabulary df)"
  let ?rated = "map (\<lambda>r. map (\<lambda>d. real_of_int d * rating r) (dummies r)) user_df"
  let ?total = "sum_list (map rating user_df)"
  from assms(2) have nz: "?total \<noteq> 0" and v: "v = map (\<lambda>x. x / ?total) (sum_columns ?n ?rated)"
    by (auto simp: get_user_profile_def Let_def split: if_splits)
  have len: "\<forall>row \<in> set ?rated. length row = ?n"
    using assms(1) by (auto simp: length_dummies)
  have "sum_list (sum_columns ?n ?rated) = sum_list (map sum_list ?rated)"
    using len by (rule sum_list_sum_columns)
  also have "\<dots> = sum_list (map rating user_df)"
  proof -
    have "sum_list (map (\<lambda>d. real_of_int d * rating r) (dummies r)) = rating r"
      if "r \<in> set user_df" for r
      using that assms(1) by (auto simp: sum_list_weighted sum_dummies)
    then have "map sum_list ?rated = map rating user_df"
      by simp
    then show ?thesis by (rule arg_cong)
  qed
  finally show ?thesis using nz by (simp add: v sum_list_divide)
qed

subsection \<open>The built model\<close>

lemma length_get_user_profile:
  assumes "set user_df \<subseteq> set (get_dummies df)"
    and "get_user_profile (length (vocabulary df)) user_df = Finite v"
  shows "length v = length (vocabulary df)"
proof -
  let ?rated = "map (\<lambda>r. map (\<lambda>d. real_of_int d * rating r) (dummies r)) user_df"
  have "\<forall>row \<in> set ?rated. length row = length (vocabulary df)"
    using assms(1) by (auto simp: length_dummies)
  then have "length (sum_columns (length (vocabulary df)) ?rated) = length (vocabulary df)"
    by (rule length_sum_columns)
  with assms(2) show ?thesis
    by (auto simp: get_user_profile_def Let_def split: if_splits)
qed

lemma built_profile:
  assumes "map_of (user_profiles (build_model R M)) u = Some p"
  shows "u \<in> userId ` set (clean R M)"
    and "p = get_user_profile (length (vocabulary (clean R M)))
               (filter (\<lambda>r. userId r = u) (get_dummies (clean R M)))"
proof -
  have "userId ` set (get_dummies (clean R M)) = userId ` set (clean R M)"
    using userId_get_dummies [of "clean R M"] by (metis set_map)
  with assms show "u \<in> userId ` set (clean R M)"
    and "p = get_user_profile (length (vocabulary (clean R M)))
               (filter (\<lambda>r. userId r = u) (get_dummies (clean R M)))"
    by (auto simp: build_model_sel map_of_build_user_profiles split: if_splits)
qed

lemma built_profile_length:
  assumes "map_of (user_profiles (build_model R M)) u = Some (Finite v)"
  shows "length v = length (vocabulary (clean R M))" and "v \<noteq> []"
proof -
  from built_profile [OF assms]
  have u: "u \<in> userId ` set (clean R M)"
    and p: "get_user_profile (length (vocabulary (clean R M)))
               (filter (\<lambda>r. userId r = u) (get_dummies (clean R M))) = Finite v"
    by simp_all
  show len: "length v = length (vocabulary (clean R M))"
    by (rule length_get_user_profile [OF _ p]) auto
  from u have "set (vocabulary (clean R M)) \<noteq> {}" by auto
  then have "vocabulary (clean R M) \<noteq> []" by (simp del: set_vocabulary)
  with len show "v \<noteq> []" by auto
qed

lemma built_feature_length:
  assumes "row \<in> set (mf_rows (movie_features (build_model R M)))"
  shows "length (f_vector row) = length (vocabulary (clean R M))"
proof -
  from assms obtain r where "r \<in> set (drop_duplicates movieId (get_dummies (clean R M)))"
    and "f_vector row = dummies r"
    by (auto simp: build_model_sel build_movie_features_def)
  then show ?thesis
    using set_drop_duplicates_subset [of movieId "get_dummies (clean R M)"]
    by (auto simp: length_dummies)
qed

lemma sum_list_positive:
  "xs \<noteq> [] \<Longrightarrow> \<forall>x \<in> set xs. 0 < x \<Longrightarrow> 0 < sum_list (xs :: real list)"
proof (induction xs)
  case Nil
  then show ?case by simp
next
  case (Cons x xs)
  then show ?case by (cases xs) (auto intro: add_pos_pos)
qed

lemma find_Some_mem: "find P xs = Some x \<Longrightarrow> x \<in> set xs \<and> P x"
  by (induction xs) (auto split: if_splits)

text \<open>Scoring a catalog row against a profile of the built model does not fail.\<close>

lemma cosine_similarity_built:
  assumes "map_of (user_profiles (build_model R M)) u = Some (Finite v)"
    and "row \<in> set (mf_rows (movie_features (build_model R M)))"
  shows "cosine_similarity (Finite v) [map real_of_int (f_vector row)] =
           Inr [cosine v (map real_of_int (f_vector row))]"
proof -
  from assms(2) have "length (f_vector row) = length v"
    using built_profile_length(1) [OF assms(1)] by (simp add: built_feature_length)
  moreover have "v \<noteq> []" by (rule built_profile_length(2) [OF assms(1)])
  ultimately show ?thesis
    using cosine_similarity_Finite [of "[map real_of_int (f_vector row)]" v] by simp
qed

subsection \<open>What recommending changes\<close>

lemma set_similarity_sel [simp]:
  "df_genres (set_similarity s st) = df_genres st"
  "genre_cols (set_similarity s st) = genre_cols st"
  "user_profiles (set_similarity s st) = user_profiles st"
  "mf_rows (movie_features (set_similarity s st)) = mf_rows (movie_features st)"
  "mf_similarity (movie_features (set_similarity s st)) = s"
  by (simp_all add: set_similarity_def)

lemma recommend_movies_state:
  "snd (recommend_movies srt st u n) = st \<or>
   (\<exists>s. snd (recommend_movies srt st u n) = set_similarity (Some s) st)"
  by (auto simp: recommend_movies_def set_similarity_def Let_def split: option.splits sum.splits)

lemma predict_rating_set_similarity:
  "predict_rating (set_similarity s st) u m = predict_rating st u m"
  by (simp add: predict_rating_def cong: option.case_cong)

lemma recommend_movies_set_similarity:
  "fst (recommend_movies srt (set_similarity s st) u n) = fst (recommend_movies srt st u n)"
  by (simp add: recommend_movies_def Let_def split: option.split sum.split)

subsection \<open>The sample models, evaluated\<close>

lemmas build_defs =
  build_model_def clean_def merge_def split_genres_def explode_def drop_timestamp_def
  no_genres_def get_dummies_def vocabulary_def one_hot_def dummy_columns_def
  build_user_profiles_def get_user_profile_def sum_columns_def build_movie_features_def Let_def

lemmas query_defs =
  recommend_movies_def predict_rating_def cosine_similarity_def normalize_l2_def float_div_def
  handle_zeros_in_scale_def l2_norm_def head_def stable_sort_desc_def with_similarity_def Let_def

lemma spec_model:
  "build_model spec_ratings spec_movies =
     \<lparr>df_genres =
        [\<lparr>userId = 1, movieId = 1, rating = 4, title = ''M1'', dummies = [1, 0]\<rparr>,
         \<lparr>userId = 1, movieId = 1, rating = 4, title = ''M1'', dummies = [0, 1]\<rparr>,
         \<lparr>userId = 1, movieId = 2, rating = 2, title = ''M2'', dummies = [0, 1]\<rparr>],
      genre_cols = [''genres_Action'', ''genres_Comedy''],
      user_profiles = [(1, Finite [2 / 5, 3 / 5])],
      movie_features =
        \<lparr>mf_rows = [\<lparr>f_movieId = 1, f_title = ''M1'', f_vector = [1, 0]\<rparr>,
                    \<lparr>f_movieId = 2, f_title = ''M2'', f_vector = [0, 1]\<rparr>],
         mf_similarity = None\<rparr>\<rparr>"
  by (simp add: build_defs spec_ratings_def spec_movies_def)

lemma low_model:
  "build_model low_ratings low_movies =
     \<lparr>df_genres = [\<lparr>userId = 1, movieId = 1, rating = 1 / 2, title = ''M1'', dummies = [1]\<rparr>],
      genre_cols = [''genres_Action''],
      user_profiles = [(1, Finite [1])],
      movie_features =
        \<lparr>mf_rows = [\<lparr>f_movieId = 1, f_title = ''M1'', f_vector = [1]\<rparr>],
         mf_similarity = None\<rparr>\<rparr>"
  by (simp add: build_defs low_ratings_def low_movies_def)

subsection \<open>Recommending from a built model\<close>

lemma tie_model:
  "build_model tie_ratings tie_movies =
     \<lparr>df_genres =
        [\<lparr>userId = 2, movieId = 7, rating = 5, title = ''M7'', dummies = [1]\<rparr>,
         \<lparr>userId = 2, movieId = 3, rating = 5, title = ''M3'', dummies = [1]\<rparr>,
         \<lparr>userId = 1, movieId = 10, rating = 5, title = ''M10'', dummies = [1]\<rparr>],
      genre_cols = [''genres_Action''],
      user_profiles = [(1, Finite [1]), (2, Finite [1])],
      movie_features =
        \<lparr>mf_rows = [\<lparr>f_movieId = 7, f_title = ''M7'', f_vector = [1]\<rparr>,
                    \<lparr>f_movieId = 3, f_title = ''M3'', f_vector = [1]\<rparr>,
                    \<lparr>f_movieId = 10, f_title = ''M10'', f_vector = [1]\<rparr>],
         mf_similarity = None\<rparr>\<rparr>"
  by (simp add: build_defs tie_ratings_def tie_movies_def)

lemma mset_insert_desc: "mset (insert_desc x ys) = add_mset x (mset ys)"
  by (induction ys) auto

lemma set_insert_desc: "set (insert_desc x ys) = insert x (set ys)"
  by (induction ys) auto

lemma sorted_insert_desc:
  "sorted_wrt (\<lambda>a b. similarity b \<le> similarity a) ys \<Longrightarrow>
   sorted_wrt (\<lambda>a b. similarity b \<le> similarity a) (insert_desc x ys)"
  by (induction ys) (auto simp: set_insert_desc)

lemma sort_values_desc_stable: "sort_values_desc stable_sort_desc"
proof -
  have "mset (stable_sort_desc xs) = mset xs" for xs
    unfolding stable_sort_desc_def by (induction xs) (simp_all add: mset_insert_desc)
  moreover have "sorted_wrt (\<lambda>a b. similarity b \<le> similarity a) (stable_sort_desc xs)" for xs
    unfolding stable_sort_desc_def by (induction xs) (simp_all add: sorted_insert_desc)
  ultimately show ?thesis by (simp add: sort_values_desc_def)
qed


lemma mf_rows_build:
  "mf_rows (build_movie_features dfg) =
     map (\<lambda>r. \<lparr>f_movieId = movieId r, f_title = title r, f_vector = dummies r\<rparr>)
         (drop_duplicates movieId dfg)"
  by (simp add: build_movie_features_def)

lemma movieId_image_get_dummies: "movieId ` set (get_dummies df) = movieId ` set df"
  using movieId_get_dummies [of df] by (metis set_map)

lemma userId_image_get_dummies: "userId ` set (get_dummies df) = userId ` set df"
  using userId_get_dummies [of df] by (metis set_map)

lemma catalog_ids:
  "f_movieId ` set (mf_rows (movie_features (build_model R M))) = movieId ` set (clean R M)"
proof -
  have "f_movieId ` set (mf_rows (movie_features (build_model R M))) =
        movieId ` set (drop_duplicates movieId (get_dummies (clean R M)))"
    by (simp add: build_model_sel mf_rows_build image_image)
  then show ?thesis
    by (simp add: keys_drop_duplicates movieId_image_get_dummies)
qed

lemma distinct_catalog_ids:
  "distinct (map f_movieId (mf_rows (movie_features (build_model R M))))"
  using distinct_drop_duplicates [of movieId "get_dummies (clean R M)"]
  by (simp add: build_model_sel mf_rows_build comp_def)

lemma already_rated_set:
  "set (map movieId (filter (\<lambda>r. userId r = u) (get_dummies df))) =
     movieId ` {r \<in> set df. userId r = u}"
  by (force simp: get_dummies_def)

text \<open>A catalog movie is among the user's cleaned rows exactly when a raw event rates it.\<close>

lemma rated_catalog_movie:
  assumes "m \<in> movieId ` set (clean R M)"
  shows "m \<in> movieId ` {r \<in> set (clean R M). userId r = u} \<longleftrightarrow>
         m \<in> set (map r_movieId (user_events R u))"
proof
  assume "m \<in> movieId ` {r \<in> set (clean R M). userId r = u}"
  then show "m \<in> set (map r_movieId (user_events R u))"
    by (force simp: set_clean user_events_def)
next
  assume "m \<in> set (map r_movieId (user_events R u))"
  then obtain rt where rt: "rt \<in> set R" "r_userId rt = u" "r_movieId rt = m"
    by (auto simp: user_events_def)
  from assms obtain rt' :: ratings_row and mv g where "mv \<in> set M" "m_movieId mv = r_movieId rt'"
    "g \<in> set (str_split (CHR ''|'') (m_genres mv))" "g \<noteq> no_genres" "r_movieId rt' = m"
    by (force simp: set_clean)
  moreover from this rt have "m_movieId mv = r_movieId rt" by simp
  ultimately have "df_of rt mv g \<in> set (clean R M)"
    using rt unfolding set_clean by blast
  moreover have "userId (df_of rt mv g) = u" "movieId (df_of rt mv g) = m"
    using rt by simp_all
  ultimately show "m \<in> movieId ` {r \<in> set (clean R M). userId r = u}"
    by force
qed

lemma map2_with_similarity:
  "map2 with_similarity rows (map h rows) = map (\<lambda>r. with_similarity r (h r)) rows"
  by (induction rows) simp_all

lemma f_movieId_with_similarity [simp]:
  "f_movieId (with_similarity r s) = f_movieId r" "f_vector (with_similarity r s) = f_vector r"
  "similarity (with_similarity r s) = s" "f_title (with_similarity r s) = f_title r"
  by (simp_all add: with_similarity_def)

lemma recommend_movies_built:
  assumes "map_of (user_profiles (build_model R M)) u = Some (Finite v)"
  shows "fst (recommend_movies srt (build_model R M) u n) =
           Inr (head n (srt (candidates (build_model R M) u v)))"
proof -
  let ?rows = "mf_rows (movie_features (build_model R M))"
  let ?vecs = "map (\<lambda>r. map real_of_int (f_vector r)) ?rows"
  from built_profile(1) [OF assms] have "movieId ` set (clean R M) \<noteq> {}" by auto
  then have "f_movieId ` set ?rows \<noteq> {}" unfolding catalog_ids .
  then have ne: "?vecs \<noteq> []" by auto
  have len: "\<forall>b \<in> set ?vecs. length b = length v"
  proof
    fix b
    assume "b \<in> set ?vecs"
    then obtain row where row: "row \<in> set ?rows" and b: "b = map real_of_int (f_vector row)"
      by auto
    from row have "length (f_vector row) = length (vocabulary (clean R M))"
      by (rule built_feature_length)
    with b show "length b = length v"
      using built_profile_length(1) [OF assms] by simp
  qed
  have "v \<noteq> []" by (rule built_profile_length(2) [OF assms])
  with ne len have "cosine_similarity (Finite v) ?vecs = Inr (map (cosine v) ?vecs)"
    by (intro cosine_similarity_Finite)
  with assms show ?thesis
    unfolding recommend_movies_def candidates_def Let_def
    by (simp add: map2_with_similarity)
qed

lemma set_head: "set (head n xs) \<subseteq> set xs"
  by (auto simp: head_def dest: in_set_takeD)

lemma length_head: "0 \<le> n \<Longrightarrow> int (length (head n xs)) = min n (int (length xs))"
  by (simp add: head_def)

lemma sorted_wrt_head: "sorted_wrt P xs \<Longrightarrow> sorted_wrt P (head n xs)"
  by (simp add: head_def)

lemma already_rated_built:
  "set (map movieId (filter (\<lambda>r. userId r = u) (df_genres (build_model R M)))) =
     movieId ` {r \<in> set (clean R M). userId r = u}"
  using already_rated_set [of u "clean R M"] by (simp add: build_model_sel)

lemma candidates_sound:
  assumes "c \<in> set (candidates (build_model R M) u v)"
  shows "f_movieId c \<in> movieId ` set (clean R M)"
    and "f_movieId c \<notin> set (map r_movieId (user_events R u))"
    and "similarity c = cosine v (map real_of_int (f_vector c))"
proof -
  from assms obtain row where row: "row \<in> set (mf_rows (movie_features (build_model R M)))"
    and c: "c = with_similarity row (cosine v (map real_of_int (f_vector row)))"
    and nr: "f_movieId c \<notin> set (map movieId (filter (\<lambda>r. userId r = u) (df_genres (build_model R M))))"
    unfolding candidates_def by auto
  from row have "f_movieId row \<in> f_movieId ` set (mf_rows (movie_features (build_model R M)))"
    by (rule imageI)
  then show cat: "f_movieId c \<in> movieId ` set (clean R M)"
    unfolding catalog_ids by (simp add: c)
  from nr have "f_movieId c \<notin> movieId ` {r \<in> set (clean R M). userId r = u}"
    unfolding already_rated_built .
  then show "f_movieId c \<notin> set (map r_movieId (user_events R u))"
    using rated_catalog_movie [OF cat] by simp
  show "similarity c = cosine v (map real_of_int (f_vector c))"
    by (simp add: c)
qed

lemma length_candidates:
  "length (candidates (build_model R M) u v) =
     card (f_movieId ` set (mf_rows (movie_features (build_model R M)))
            - set (map r_movieId (user_events R u)))"
proof -
  let ?rows = "mf_rows (movie_features (build_model R M))"
  let ?A = "movieId ` {r \<in> set (clean R M). userId r = u}"
  let ?ids = "map f_movieId ?rows"
  have "length (candidates (build_model R M) u v) = length (filter (\<lambda>r. f_movieId r \<notin> ?A) ?rows)"
    unfolding candidates_def already_rated_built by (simp add: filter_map comp_def)
  also have "\<dots> = length (filter (\<lambda>i. i \<notin> ?A) ?ids)"
    by (simp add: filter_map comp_def)
  also have "\<dots> = card (set (filter (\<lambda>i. i \<notin> ?A) ?ids))"
  proof -
    have "distinct (filter (\<lambda>i. i \<notin> ?A) ?ids)"
      using distinct_catalog_ids [of R M] by (rule distinct_filter)
    then show ?thesis by (rule distinct_card [symmetric])
  qed
  also have "set (filter (\<lambda>i. i \<notin> ?A) ?ids) =
      f_movieId ` set ?rows - set (map r_movieId (user_events R u))"
  proof -
    have "set ?ids = movieId ` set (clean R M)"
      using catalog_ids [of R M] by simp
    then show ?thesis
      using rated_catalog_movie [of _ R M u] catalog_ids [of R M]
      by auto
  qed
  finally show ?thesis .
qed

lemma sort_values_desc_set: "sort_values_desc srt \<Longrightarrow> set (srt xs) = set xs"
  unfolding sort_values_desc_def by (metis set_mset_mset)

lemma sort_values_desc_length: "sort_values_desc srt \<Longrightarrow> length (srt xs) = length xs"
  unfolding sort_values_desc_def by (metis size_mset)

lemma sort_values_desc_sorted:
  "sort_values_desc srt \<Longrightarrow> sorted_wrt (\<lambda>a b. similarity b \<le> similarity a) (srt xs)"
  unfolding sort_values_desc_def by simp

lemma recommend_movies_Inr:
  assumes "fst (recommend_movies srt st u n) = Inr recs"
  shows "\<exists>v. map_of (user_profiles st) u = Some (Finite v)"
proof (cases "map_of (user_profiles st) u")
  case None
  with assms show ?thesis by (simp add: recommend_movies_def)
next
  case (Some p)
  with assms show ?thesis
    by (cases p) (simp_all add: recommend_movies_def cosine_similarity_def)
qed

lemma tie_recommend:
  "fst (recommend_movies stable_sort_desc (build_model tie_ratings tie_movies) 1 5) =
     Inr [\<lparr>f_movieId = 7, f_title = ''M7'', f_vector = [1], similarity = 1\<rparr>,
          \<lparr>f_movieId = 3, f_title = ''M3'', f_vector = [1], similarity = 1\<rparr>]"
  by (simp add: tie_model query_defs)

subsection \<open>Profiles in terms of rating events\<close>

lemma unique_movie_idsD:
  "unique_movie_ids M \<Longrightarrow> a \<in> set M \<Longrightarrow> b \<in> set M \<Longrightarrow> m_movieId a = m_movieId b \<Longrightarrow> a = b"
  unfolding unique_movie_ids_def distinct_map by (auto dest: inj_onD)

lemma set_movie_genres:
  "set (movie_genres M m) =
     {g. g \<noteq> no_genres \<and> (\<exists>mv \<in> set M. m_movieId mv = m \<and> g \<in> set (str_split (CHR ''|'') (m_genres mv)))}"
  by (auto simp: movie_genres_def)

lemma distinct_movie_genres [simp]: "distinct (movie_genres M m)"
  by (simp add: movie_genres_def)

lemma set_user_events [simp]: "set (user_events R u) = {rt \<in> set R. r_userId rt = u}"
  by (simp add: user_events_def)

text \<open>Sums over the user's cleaned rows, as sums over the user's events and their genres.\<close>

lemma sum_user_rows:
  fixes f :: "int \<Rightarrow> real \<Rightarrow> string \<Rightarrow> real"
  assumes uniq: "unique_movie_ids M"
    and dist: "distinct (map r_movieId (user_events R u))"
  shows "sum_list (map (\<lambda>r. f (movieId r) (rating r) (genres r)) (filter (\<lambda>r. userId r = u) (clean R M))) =
         sum_list (map (\<lambda>rt. sum_list (map (f (r_movieId rt) (r_rating rt)) (movie_genres M (r_movieId rt))))
                       (user_events R u))"
proof -
  let ?E = "user_events R u"
  let ?rows = "filter (\<lambda>r. userId r = u) (clean R M)"
  let ?proj = "\<lambda>r::df_row. (movieId r, rating r, genres r)"
  let ?pair = "\<lambda>(rt, g). (r_movieId rt, r_rating rt, g)"
  let ?P = "SIGMA rt : set ?E. set (movie_genres M (r_movieId rt))"
  let ?f' = "\<lambda>(m, r, g). f m r g"
  have inj_E: "inj_on r_movieId (set ?E)" and dist_E: "distinct ?E"
    using dist by (simp_all add: distinct_map)
  have inj_proj: "inj_on ?proj (set ?rows)"
  proof (rule inj_onI)
    fix a b
    assume a: "a \<in> set ?rows" and b: "b \<in> set ?rows" and eq: "?proj a = ?proj b"
    from a obtain rt mv g where a': "a = df_of rt mv g" "mv \<in> set M" "m_movieId mv = r_movieId rt"
      by (auto simp: set_clean)
    from b obtain rt' mv' g' where b': "b = df_of rt' mv' g'" "mv' \<in> set M" "m_movieId mv' = r_movieId rt'"
      by (auto simp: set_clean)
    from eq a' b' have "m_movieId mv = m_movieId mv'" by simp
    with uniq a'(2) b'(2) have "mv = mv'" by (rule unique_movie_idsD)
    moreover from a b have "userId a = userId b" by simp
    ultimately show "a = b" using eq a'(1) b'(1) by (simp add: df_of_def)
  qed
  have inj_pair: "inj_on ?pair ?P"
    using inj_E by (auto simp: inj_on_def)
  have img: "?proj ` set ?rows = ?pair ` ?P"
  proof (intro equalityI subsetI)
    fix x
    assume "x \<in> ?proj ` set ?rows"
    then obtain rt mv g where "rt \<in> set R" "r_userId rt = u" "mv \<in> set M"
      "m_movieId mv = r_movieId rt" "g \<in> set (str_split (CHR ''|'') (m_genres mv))" "g \<noteq> no_genres"
      "x = (r_movieId rt, r_rating rt, g)"
      by (auto simp: set_clean)
    then have "(rt, g) \<in> ?P" "x = ?pair (rt, g)"
      by (auto simp: set_movie_genres)
    then show "x \<in> ?pair ` ?P" by (rule rev_image_eqI)
  next
    fix x
    assume "x \<in> ?pair ` ?P"
    then obtain rt g where rt: "rt \<in> set R" "r_userId rt = u"
      and g: "g \<in> set (movie_genres M (r_movieId rt))" and x: "x = (r_movieId rt, r_rating rt, g)"
      by auto
    from g obtain mv where mv: "mv \<in> set M" "m_movieId mv = r_movieId rt"
      "g \<in> set (str_split (CHR ''|'') (m_genres mv))" "g \<noteq> no_genres"
      by (auto simp: set_movie_genres)
    with rt have "df_of rt mv g \<in> set (clean R M)"
      unfolding set_clean by blast
    with rt have "df_of rt mv g \<in> set ?rows" by simp
    moreover have "?proj (df_of rt mv g) = x" by (simp add: x)
    ultimately show "x \<in> ?proj ` set ?rows" by (rule rev_image_eqI [OF _ sym])
  qed
  have "distinct ?rows" by (simp add: distinct_clean)
  then have "sum_list (map (\<lambda>r. f (movieId r) (rating r) (genres r)) ?rows) =
             sum (\<lambda>r. f (movieId r) (rating r) (genres r)) (set ?rows)"
    by (rule sum_list_distinct_conv_sum_set)
  also have "\<dots> = sum (?f' \<circ> ?proj) (set ?rows)"
    by (simp add: comp_def)
  also have "\<dots> = sum ?f' (?proj ` set ?rows)"
    by (rule sum.reindex [OF inj_proj, symmetric])
  also have "\<dots> = sum ?f' (?pair ` ?P)"
    by (simp only: img)
  also have "\<dots> = sum (?f' \<circ> ?pair) ?P"
    by (rule sum.reindex [OF inj_pair])
  also have "\<dots> = (\<Sum>rt \<in> set ?E. \<Sum>g \<in> set (movie_genres M (r_movieId rt)). f (r_movieId rt) (r_rating rt) g)"
    by (subst sum.Sigma) (auto simp: comp_def intro!: sum.cong)
  also have "\<dots> = (\<Sum>rt \<in> set ?E. sum_list (map (f (r_movieId rt) (r_rating rt)) (movie_genres M (r_movieId rt))))"
    by (simp add: sum_list_distinct_conv_sum_set)
  also have "\<dots> = sum_list (map (\<lambda>rt. sum_list (map (f (r_movieId rt) (r_rating rt)) (movie_genres M (r_movieId rt)))) ?E)"
    using dist_E by (rule sum_list_distinct_conv_sum_set [symmetric])
  finally show ?thesis .
qed


lemma nth_one_hot:
  "j < length vocab \<Longrightarrow> one_hot vocab g ! j = (if g = vocab ! j then 1 else 0)"
  by (simp add: one_hot_def)

lemma sum_rating_user_dummies:
  "sum_list (map rating (filter (\<lambda>r. userId r = u) (get_dummies df))) =
   sum_list (map rating (filter (\<lambda>r. userId r = u) df))"
  by (simp add: get_dummies_def filter_map comp_def)

lemma sum_column_user_dummies:
  assumes "j < length (vocabulary df)"
  shows "sum_list (map (\<lambda>r. map (\<lambda>d. real_of_int d * rating r) (dummies r) ! j)
                       (filter (\<lambda>r. userId r = u) (get_dummies df))) =
         sum_list (map (\<lambda>r. if genres r = vocabulary df ! j then rating r else 0)
                       (filter (\<lambda>r. userId r = u) df))"
proof -
  have "map (\<lambda>d. real_of_int d * rating r) (one_hot (vocabulary df) (genres r)) ! j =
        (if genres r = vocabulary df ! j then rating r else 0)" for r :: df_row
    using assms by (simp add: nth_one_hot)
  then show ?thesis
    by (simp add: get_dummies_def filter_map comp_def)
qed

lemma nth_get_user_profile:
  assumes "get_user_profile n user_df = Finite v"
    and "\<forall>r \<in> set user_df. length (dummies r) = n" and "j < n"
  shows "v ! j = sum_list (map (\<lambda>r. map (\<lambda>d. real_of_int d * rating r) (dummies r) ! j) user_df)
                 / sum_list (map rating user_df)"
proof -
  let ?rated = "map (\<lambda>r. map (\<lambda>d. real_of_int d * rating r) (dummies r)) user_df"
  from assms(1) have v: "v = map (\<lambda>x. x / sum_list (map rating user_df)) (sum_columns n ?rated)"
    by (auto simp: get_user_profile_def Let_def split: if_splits)
  have len: "\<forall>row \<in> set ?rated. length row = n"
    using assms(2) by auto
  then have "length (sum_columns n ?rated) = n" by (rule length_sum_columns)
  with assms(3) have "v ! j = sum_columns n ?rated ! j / sum_list (map rating user_df)"
    by (simp add: v)
  also have "sum_columns n ?rated ! j = sum_list (map (\<lambda>row. row ! j) ?rated)"
    using len assms(3) by (rule nth_sum_columns)
  finally show ?thesis by (simp add: comp_def)
qed

lemma sum_list_if_distinct:
  "distinct xs \<Longrightarrow> sum_list (map (\<lambda>x. if x = g then c else 0) xs) = (if g \<in> set xs then c else (0::real))"
  by (induction xs) auto

subsection \<open>The first row of a movie\<close>

lemma find_append:
  "find P (xs @ ys) = (case find P xs of None \<Rightarrow> find P ys | Some x \<Rightarrow> Some x)"
  by (induction xs) auto

lemma find_concat_Some:
  "find P (concat xss) = Some x \<Longrightarrow> \<exists>xs \<in> set xss. find P xs = Some x"
proof (induction xss)
  case Nil
  then show ?case by simp
next
  case (Cons xs xss)
  then show ?case by (cases "find P xs") (auto simp: find_append)
qed

lemma find_map: "find P (map f xs) = map_option f (find (\<lambda>x. P (f x)) xs)"
  by (induction xs) auto

lemma find_None_set: "find P xs = None \<longleftrightarrow> (\<forall>x \<in> set xs. \<not> P x)"
  by (auto simp: find_None_iff)

text \<open>The first row of a movie in the cleaned frame has the first genre of a movie row.\<close>

lemma clean_first_row:
  assumes "find (\<lambda>r. movieId r = m) (clean R M) = Some x"
  shows "\<exists>mv \<in> set M. m_movieId mv = m \<and> title x = m_title mv \<and>
           find (\<lambda>g. g \<noteq> no_genres) (str_split (CHR ''|'') (m_genres mv)) = Some (genres x)"
proof -
  let ?Q = "\<lambda>r::df_row. genres r \<noteq> no_genres \<and> movieId r = m"
  from assms have "find ?Q (concat (map (\<lambda>rt. concat (map (\<lambda>mv. map (df_of rt mv) (str_split (CHR ''|'') (m_genres mv)))
                                   (filter (\<lambda>mv. m_movieId mv = r_movieId rt) M))) R)) = Some x"
    by (simp add: clean_def find_filter find_drop_duplicates_id exploded_eq)
  from find_concat_Some [OF this] obtain rt where rt: "rt \<in> set R"
    and "find ?Q (concat (map (\<lambda>mv. map (df_of rt mv) (str_split (CHR ''|'') (m_genres mv)))
                                   (filter (\<lambda>mv. m_movieId mv = r_movieId rt) M))) = Some x"
    by auto
  from find_concat_Some [OF this(2)] obtain mv where mv: "mv \<in> set M" "m_movieId mv = r_movieId rt"
    and "find ?Q (map (df_of rt mv) (str_split (CHR ''|'') (m_genres mv))) = Some x"
    by auto
  then obtain g where g: "find (\<lambda>g. ?Q (df_of rt mv g)) (str_split (CHR ''|'') (m_genres mv)) = Some g"
    and x: "x = df_of rt mv g"
    by (auto simp: find_map)
  from g have "?Q (df_of rt mv g)" by (auto dest: find_Some_mem)
  then have m: "r_movieId rt = m" by simp
  with g have "find (\<lambda>g. g \<noteq> no_genres) (str_split (CHR ''|'') (m_genres mv)) = Some g"
    by simp
  with mv m x show ?thesis by auto
qed

lemma map_of_first:
  "map_of (map (\<lambda>r. (key r, val r)) xs) k = map_option val (find (\<lambda>r. key r = k) xs)"
  by (induction xs) auto

lemma find_get_dummies:
  "find (\<lambda>r. movieId r = m) (get_dummies df) =
     map_option (\<lambda>r. \<lparr>userId = userId r, movieId = movieId r, rating = rating r,
                title = title r, dummies = one_hot (vocabulary df) (genres r)\<rparr>)
       (find (\<lambda>r. movieId r = m) df)"
  unfolding get_dummies_def by (simp add: find_map)

lemma catalog_built:
  "catalog (build_model R M) m =
     map_option (\<lambda>r. (title r, one_hot (vocabulary (clean R M)) (genres r)))
       (find (\<lambda>r. movieId r = m) (clean R M))"
proof -
  have "catalog (build_model R M) m =
      map_option (\<lambda>r. (title r, dummies r))
        (find (\<lambda>r. movieId r = m) (drop_duplicates movieId (get_dummies (clean R M))))"
    using map_of_first [of movieId "\<lambda>r. (title r, dummies r)" "drop_duplicates movieId (get_dummies (clean R M))" m]
    by (simp add: catalog_def build_model_sel mf_rows_build comp_def)
  then show ?thesis
    by (simp add: find_drop_duplicates find_get_dummies option.map_comp comp_def)
qed


text \<open>
  Every vector of the catalog is the indicator of one genre: the first genre, other than
  the "no genres" marker, of a movie row with that id.
\<close>

lemma catalog_vector_first_genre:
  assumes "catalog (build_model R M) m = Some (t, v)"
  shows "\<exists>mv \<in> set M. \<exists>g. m_movieId mv = m \<and> t = m_title mv \<and>
           find (\<lambda>g. g \<noteq> no_genres) (str_split (CHR ''|'') (m_genres mv)) = Some g \<and>
           v = one_hot (vocabulary (clean R M)) g"
proof -
  from assms obtain x where x: "find (\<lambda>r. movieId r = m) (clean R M) = Some x"
    and t: "t = title x" and v: "v = one_hot (vocabulary (clean R M)) (genres x)"
    by (auto simp: catalog_built)
  from clean_first_row [OF x] t v show ?thesis by blast
qed

subsection \<open>Rearranging the input rows\<close>

lemma clean_set_cong:
  assumes "set R' = set R" and "set M' = set M"
  shows "set (clean R' M') = set (clean R M)"
  unfolding set_clean assms ..

lemma clean_mset_cong:
  assumes "set R' = set R" and "set M' = set M"
  shows "mset (clean R' M') = mset (clean R M)"
  using clean_set_cong [OF assms] distinct_clean [of R' M'] distinct_clean [of R M]
  by (simp add: set_eq_iff_mset_eq_distinct)

lemma sort_remdups_cong:
  fixes xs ys :: "'a::linorder list"
  assumes "set xs = set ys"
  shows "sort (remdups xs) = sort (remdups ys)"
  by (rule sorted_distinct_set_unique) (simp_all add: assms)

lemma vocabulary_cong: "set df' = set df \<Longrightarrow> vocabulary df' = vocabulary df"
  unfolding vocabulary_def by (rule sort_remdups_cong) simp

lemma sum_list_map_mset_cong:
  fixes f :: "'a \<Rightarrow> real"
  assumes "mset xs = mset ys"
  shows "sum_list (map f xs) = sum_list (map f ys)"
proof -
  have "sum_list (map f xs) = sum_mset (image_mset f (mset xs))"
    by (simp add: sum_mset_sum_list [symmetric])
  also have "\<dots> = sum_mset (image_mset f (mset ys))"
    by (simp only: assms)
  also have "\<dots> = sum_list (map f ys)"
    by (simp add: sum_mset_sum_list [symmetric])
  finally show ?thesis .
qed

lemma sum_columns_mset_cong:
  assumes "mset rows' = mset rows" and "\<forall>row \<in> set rows. length row = n"
  shows "sum_columns n rows' = sum_columns n rows"
proof (rule nth_equalityI)
  have set_eq: "set rows' = set rows" using assms(1) by (rule mset_eq_setD)
  with assms(2) have len': "\<forall>row \<in> set rows'. length row = n" by simp
  show "length (sum_columns n rows') = length (sum_columns n rows)"
    using len' assms(2) by (simp add: length_sum_columns)
  fix j
  assume "j < length (sum_columns n rows')"
  then have j: "j < n" using len' by (simp add: length_sum_columns)
  have "sum_columns n rows' ! j = sum_list (map (\<lambda>row. row ! j) rows')"
    using len' j by (rule nth_sum_columns)
  also have "\<dots> = sum_list (map (\<lambda>row. row ! j) rows)"
    using assms(1) by (rule sum_list_map_mset_cong)
  also have "\<dots> = sum_columns n rows ! j"
    using assms(2) j by (rule nth_sum_columns [symmetric])
  finally show "sum_columns n rows' ! j = sum_columns n rows ! j" .
qed

lemma get_user_profile_mset_cong:
  assumes "mset user_df' = mset user_df" and "\<forall>r \<in> set user_df. length (dummies r) = n"
  shows "get_user_profile n user_df' = get_user_profile n user_df"
proof -
  let ?w = "\<lambda>r::dummies_row. map (\<lambda>d. real_of_int d * rating r) (dummies r)"
  have "mset (map ?w user_df') = mset (map ?w user_df)"
    using assms(1) by simp
  moreover have "\<forall>row \<in> set (map ?w user_df). length row = n"
    using assms(2) by simp
  ultimately have cols: "sum_columns n (map ?w user_df') = sum_columns n (map ?w user_df)"
    by (rule sum_columns_mset_cong)
  have total: "sum_list (map rating user_df') = sum_list (map rating user_df)"
    using assms(1) by (rule sum_list_map_mset_cong)
  show ?thesis
    unfolding get_user_profile_def Let_def cols total ..
qed

lemma get_dummies_mset_cong:
  assumes "mset df' = mset df"
  shows "mset (get_dummies df') = mset (get_dummies df)"
proof -
  have "vocabulary df' = vocabulary df"
    using assms by (intro vocabulary_cong mset_eq_setD)
  with assms show ?thesis by (simp add: get_dummies_def)
qed

lemma build_user_profiles_mset_cong:
  assumes "mset dfg' = mset dfg" and "\<forall>r \<in> set dfg. length (dummies r) = n"
  shows "build_user_profiles n dfg' = build_user_profiles n dfg"
proof -
  have "set (map userId dfg') = set (map userId dfg)"
    using assms(1) by (metis mset_eq_setD mset_map)
  then have users: "sort (remdups (map userId dfg')) = sort (remdups (map userId dfg))"
    by (rule sort_remdups_cong)
  have "get_user_profile n (filter (\<lambda>r. userId r = u) dfg') =
        get_user_profile n (filter (\<lambda>r. userId r = u) dfg)" for u
    by (rule get_user_profile_mset_cong) (use assms in auto)
  with users show ?thesis by (simp add: build_user_profiles_def)
qed

lemma dup_model:
  "build_model dup_ratings dup_movies =
     \<lparr>df_genres =
        [\<lparr>userId = 1, movieId = 1, rating = 5, title = ''M1'', dummies = [1, 0]\<rparr>,
         \<lparr>userId = 1, movieId = 1, rating = 5, title = ''M1'', dummies = [0, 1]\<rparr>],
      genre_cols = [''genres_Action'', ''genres_Comedy''],
      user_profiles = [(1, Finite [1 / 2, 1 / 2])],
      movie_features =
        \<lparr>mf_rows = [\<lparr>f_movieId = 1, f_title = ''M1'', f_vector = [1, 0]\<rparr>],
           mf_similarity = None\<rparr>\<rparr>"
  by (simp add: build_defs dup_ratings_def dup_movies_def)

lemma dup_model_rev:
  "build_model dup_ratings (rev dup_movies) =
     \<lparr>df_genres =
        [\<lparr>userId = 1, movieId = 1, rating = 5, title = ''M1'', dummies = [0, 1]\<rparr>,
         \<lparr>userId = 1, movieId = 1, rating = 5, title = ''M1'', dummies = [1, 0]\<rparr>],
      genre_cols = [''genres_Action'', ''genres_Comedy''],
      user_profiles = [(1, Finite [1 / 2, 1 / 2])],
      movie_features =
        \<lparr>mf_rows = [\<lparr>f_movieId = 1, f_title = ''M1'', f_vector = [0, 1]\<rparr>],
           mf_similarity = None\<rparr>\<rparr>"
  by (simp add: build_defs dup_ratings_def dup_movies_def)

subsection \<open>The movies of the catalog\<close>

text \<open>
  \<open>movie_features\<close> is made from the join of the ratings with the movies: it holds the
  movies that have a genre and that some event rates, and no other movie.
\<close>

lemma set_rated_with_genres: "set (rated_with_genres R M) = movieId ` set (clean R M)"
proof (intro equalityI subsetI)
  fix m
  assume "m \<in> set (rated_with_genres R M)"
  then obtain rt where rt: "rt \<in> set R" "r_movieId rt = m" and "set (movie_genres M m) \<noteq> {}"
    by (auto simp: rated_with_genres_def)
  then obtain mv g where "mv \<in> set M" "m_movieId mv = m"
    "g \<in> set (str_split (CHR ''|'') (m_genres mv))" "g \<noteq> no_genres"
    by (auto simp: set_movie_genres)
  with rt have "df_of rt mv g \<in> set (clean R M)"
    unfolding set_clean by blast
  moreover have "movieId (df_of rt mv g) = m" using rt by simp
  ultimately show "m \<in> movieId ` set (clean R M)" by force
next
  fix m
  assume "m \<in> movieId ` set (clean R M)"
  then obtain rt mv g where "rt \<in> set R" "r_movieId rt = m" "mv \<in> set M"
    "m_movieId mv = m" "g \<in> set (str_split (CHR ''|'') (m_genres mv))" "g \<noteq> no_genres"
    by (force simp: set_clean)
  then have "m \<in> set (map r_movieId R)" and "g \<in> set (movie_genres M m)"
    by (auto simp: set_movie_genres)
  then show "m \<in> set (rated_with_genres R M)"
    by (auto simp: rated_with_genres_def)
qed

lemma catalog_ids_raw:
  "f_movieId ` set (mf_rows (movie_features (build_model R M))) = set (rated_with_genres R M)"
  by (simp only: catalog_ids set_rated_with_genres)

lemma catalog_find:
  "catalog st m =
     map_option (\<lambda>r. (f_title r, f_vector r))
       (find (\<lambda>r. f_movieId r = m) (mf_rows (movie_features st)))"
  unfolding catalog_def by (rule map_of_first)

lemma find_catalog_row:
  "find (\<lambda>r. f_movieId r = m) (mf_rows (movie_features (build_model R M))) = None \<longleftrightarrow>
     m \<notin> set (rated_with_genres R M)"
  unfolding catalog_ids_raw [symmetric] by (auto simp: find_None_set)

lemma zero_model:
  "build_model zero_ratings low_movies =
     \<lparr>df_genres = [\<lparr>userId = 1, movieId = 1, rating = 0, title = ''M1'', dummies = [1]\<rparr>],
      genre_cols = [''genres_Action''],
      user_profiles = [(1, NonFinite)],
      movie_features =
        \<lparr>mf_rows = [\<lparr>f_movieId = 1, f_title = ''M1'', f_vector = [1]\<rparr>],
         mf_similarity = None\<rparr>\<rparr>"
  by (simp add: build_defs zero_ratings_def low_movies_def)

lemma spec_recommend_empty:
  "fst (recommend_movies stable_sort_desc (build_model spec_ratings spec_movies) 1 1) = Inr []"
proof -
  have u: "map_of (user_profiles (build_model spec_ratings spec_movies)) 1 = Some (Finite [2 / 5, 3 / 5])"
    by (simp add: spec_model)
  have "candidates (build_model spec_ratings spec_movies) 1 [2 / 5, 3 / 5] = []"
    by (simp add: candidates_def spec_model)
  with recommend_movies_built [OF u, of stable_sort_desc 1] show ?thesis
    by (simp add: head_def stable_sort_desc_def)
qed

section \<open>The claims\<close>

subsection \<open>C1\<close>

text \<open>
  C1 (as amended). When no two different movie rows share a movie id and the user has at
  most one rating event per movie, the component of the user's profile for a vocabulary
  genre is the sum, over the user's rating events, of the rating times the movie's full
  indicator vector at that genre, divided by the sum over the same events of the rating
  times the number of genres of the movie: the denominator counts a rating once per
  (movie, genre) row of the cleaned frame, not once per movie.
\<close>

theorem C1_profile_formula:
  assumes "unique_movie_ids M"
    and "distinct (map r_movieId (user_events R u))"
    and "map_of (user_profiles (build_model R M)) u = Some (Finite v)"
    and "j < length v"
  shows "v ! j =
           (\<Sum>rt\<leftarrow>user_events R u.
               r_rating rt * genre_vector (vocabulary (clean R M)) M (r_movieId rt) ! j)
           / (\<Sum>rt\<leftarrow>user_events R u.
               r_rating rt * real (length (movie_genres M (r_movieId rt))))"
proof -
  let ?df = "clean R M"
  let ?vocab = "vocabulary ?df"
  let ?udf = "filter (\<lambda>r. userId r = u) (get_dummies ?df)"
  from built_profile(2) [OF assms(3)]
  have p: "get_user_profile (length ?vocab) ?udf = Finite v" by simp
  have j: "j < length ?vocab"
    using assms(4) built_profile_length(1) [OF assms(3)] by simp
  have "\<forall>r \<in> set ?udf. length (dummies r) = length ?vocab"
    by (auto simp: length_dummies)
  with p have "v ! j =
      sum_list (map (\<lambda>r. map (\<lambda>d. real_of_int d * rating r) (dummies r) ! j) ?udf)
      / sum_list (map rating ?udf)"
    using j by (rule nth_get_user_profile)
  also have "sum_list (map (\<lambda>r. map (\<lambda>d. real_of_int d * rating r) (dummies r) ! j) ?udf) =
      sum_list (map (\<lambda>r. if genres r = ?vocab ! j then rating r else 0)
                    (filter (\<lambda>r. userId r = u) ?df))"
    using j by (rule sum_column_user_dummies)
  also have "\<dots> = (\<Sum>rt\<leftarrow>user_events R u.
      sum_list (map (\<lambda>g. if g = ?vocab ! j then r_rating rt else 0) (movie_genres M (r_movieId rt))))"
    by (rule sum_user_rows [OF assms(1,2), of "\<lambda>m r g. if g = ?vocab ! j then r else 0"])
  also have "\<dots> = (\<Sum>rt\<leftarrow>user_events R u. r_rating rt * genre_vector ?vocab M (r_movieId rt) ! j)"
  proof -
    have eq: "sum_list (map (\<lambda>g. if g = ?vocab ! j then r_rating rt else 0) (movie_genres M (r_movieId rt))) =
          r_rating rt * genre_vector ?vocab M (r_movieId rt) ! j" for rt :: ratings_row
      using j by (simp add: sum_list_if_distinct genre_vector_def)
    show ?thesis unfolding eq by (rule refl)
  qed
  also have "sum_list (map rating ?udf) = sum_list (map rating (filter (\<lambda>r. userId r = u) ?df))"
    by (rule sum_rating_user_dummies)
  also have "\<dots> = (\<Sum>rt\<leftarrow>user_events R u.
      sum_list (map (\<lambda>g. r_rating rt) (movie_genres M (r_movieId rt))))"
    by (rule sum_user_rows [OF assms(1,2), of "\<lambda>m r g. r"])
  also have "\<dots> = (\<Sum>rt\<leftarrow>user_events R u. r_rating rt * real (length (movie_genres M (r_movieId rt))))"
    by (simp add: sum_list_triv mult.commute)
  finally show ?thesis .
qed

text \<open>
  C1 as stated fails: in the specification's scenario (ratings 4 for a movie of genres
  Action and Comedy, 2 for a movie of genre Comedy) the profile is [4/10, 6/10], not
  [4/6, 6/6].
\<close>

theorem C1_counterexample:
  "map_of (user_profiles (build_model spec_ratings spec_movies)) 1 = Some (Finite [2 / 5, 3 / 5]) \<and>
   [2 / 5, 3 / 5] \<noteq> [4 / 6, 6 / 6 :: real]"
  by (simp add: spec_model)

theorem C1_witness:
  "map_of (user_profiles (build_model spec_ratings spec_movies)) 1 = Some (Finite [2 / 5, 3 / 5]) \<and>
   [2 / 5, 3 / 5] ! 0 = (4 * 1 + 2 * 0) / (4 * 2 + 2 * 1 :: real) \<and>
   [2 / 5, 3 / 5] ! 1 = (4 * 1 + 2 * 1) / (4 * 2 + 2 * 1 :: real)"
proof -
  have uniq: "unique_movie_ids spec_movies"
    by (simp add: unique_movie_ids_def spec_movies_def)
  have dist: "distinct (map r_movieId (user_events spec_ratings 1))"
    by (simp add: user_events_def spec_ratings_def)
  have u: "map_of (user_profiles (build_model spec_ratings spec_movies)) 1 = Some (Finite [2 / 5, 3 / 5])"
    by (simp add: spec_model)
  have j0: "0 < length [2 / 5, 3 / 5 :: real]" and j1: "1 < length [2 / 5, 3 / 5 :: real]"
    by simp_all
  note C1_profile_formula [OF uniq dist u j0] C1_profile_formula [OF uniq dist u j1]
  with u show ?thesis by simp
qed

subsection \<open>C2\<close>

text \<open>
  C2 does not hold of the code. \<open>movie_features\<close> keeps the first row of every movie of
  \<open>df_genres\<close>, which has one row per (rating event, genre): in the specification's
  scenario, movie 1 has the genres Action and Comedy, and its vector in \<open>movie_features\<close>
  has a 1 in the Action column only.
\<close>

theorem C2_catalog_vector_first_genre_only:
  "genre_cols (build_model spec_ratings spec_movies) = [''genres_Action'', ''genres_Comedy''] \<and>
   catalog (build_model spec_ratings spec_movies) 1 = Some (''M1'', [1, 0]) \<and>
   genre_vector [''Action'', ''Comedy''] spec_movies 1 = [1, 1]"
proof -
  have "genre_vector [''Action'', ''Comedy''] spec_movies 1 = [1, 1]"
    by (simp add: genre_vector_def movie_genres_def spec_movies_def no_genres_def)
  then show ?thesis
    by (simp add: spec_model catalog_def)
qed

subsection \<open>C3\<close>

text \<open>
  C3 (as amended). For a user of the built model with a finite profile and \<open>top_n \<ge> 0\<close>,
  \<open>recommend_movies\<close> returns rows in order of non-increasing similarity, each with the
  cosine similarity of the profile and the row's genre vector, and as many rows as the
  smaller of \<open>top_n\<close> and the number of movies that have a genre, that some rating event
  rates and that no rating event of the user rates. A movie that no event rates is not
  in \<open>movie_features\<close> and is never returned. This holds for every sorting procedure that
  \<open>sort_values\<close> may be; nothing is said about the order of rows with equal similarity.
\<close>

theorem C3_recommend_sorted_length:
  assumes "sort_values_desc srt"
    and "map_of (user_profiles (build_model R M)) u = Some (Finite v)"
    and "0 \<le> n"
  shows "\<exists>recs. fst (recommend_movies srt (build_model R M) u n) = Inr recs \<and>
           sorted_wrt (\<lambda>a b. similarity b \<le> similarity a) recs \<and>
           (\<forall>r \<in> set recs. similarity r = cosine v (map real_of_int (f_vector r))) \<and>
           f_movieId ` set recs \<subseteq> set (rated_with_genres R M) \<and>
           int (length recs) =
             min n (int (card (set (rated_with_genres R M)
                               - set (map r_movieId (user_events R u)))))"
proof -
  let ?cands = "candidates (build_model R M) u v"
  let ?recs = "head n (srt ?cands)"
  have res: "fst (recommend_movies srt (build_model R M) u n) = Inr ?recs"
    by (rule recommend_movies_built [OF assms(2)])
  have srt: "sorted_wrt (\<lambda>a b. similarity b \<le> similarity a) ?recs"
    by (intro sorted_wrt_head sort_values_desc_sorted assms(1))
  have mem: "r \<in> set ?cands" if "r \<in> set ?recs" for r
    using that set_head [of n "srt ?cands"] by (auto simp: sort_values_desc_set [OF assms(1)])
  have sim: "\<forall>r \<in> set ?recs. similarity r = cosine v (map real_of_int (f_vector r))"
    using mem by (auto intro: candidates_sound(3))
  have ids: "f_movieId ` set ?recs \<subseteq> set (rated_with_genres R M)"
    using mem candidates_sound(1) [of _ R M u v] by (auto simp: set_rated_with_genres)
  have "int (length ?recs) = min n (int (length ?cands))"
    using assms(3) by (simp add: length_head sort_values_desc_length [OF assms(1)])
  then have len: "int (length ?recs) =
      min n (int (card (set (rated_with_genres R M) - set (map r_movieId (user_events R u)))))"
    by (simp only: length_candidates catalog_ids_raw)
  from res srt sim ids len show ?thesis by blast
qed

text \<open>
  C3 as stated fails twice. With the stable sorting procedure, recommending for user 1
  from \<open>tie_ratings\<close> and \<open>tie_movies\<close> returns movie 7 before movie 3 although both have
  similarity 1: the code sorts by similarity alone, and rows of equal similarity are not
  ordered by movie id. And in the specification's scenario, recommending one movie for
  user 1 returns no row, although movie 3 has a genre and the user has not rated it:
  nobody rated it, so it is not in \<open>movie_features\<close>.
\<close>

theorem C3_counterexample:
  "sort_values_desc stable_sort_desc \<and>
   fst (recommend_movies stable_sort_desc (build_model tie_ratings tie_movies) 1 5) =
     Inr [\<lparr>f_movieId = 7, f_title = ''M7'', f_vector = [1], similarity = 1\<rparr>,
          \<lparr>f_movieId = 3, f_title = ''M3'', f_vector = [1], similarity = 1\<rparr>] \<and>
   \<not> sorted_wrt by_score_then_id
         [\<lparr>f_movieId = 7, f_title = ''M7'', f_vector = [1], similarity = 1\<rparr>,
          \<lparr>f_movieId = 3, f_title = ''M3'', f_vector = [1], similarity = 1\<rparr>] \<and>
   fst (recommend_movies stable_sort_desc (build_model spec_ratings spec_movies) 1 1) = Inr [] \<and>
   movie_genres spec_movies 3 = [''Action''] \<and>
   (3::int) \<notin> set (map r_movieId (user_events spec_ratings 1))"
proof -
  have "movie_genres spec_movies 3 = [''Action'']"
    by (simp add: movie_genres_def spec_movies_def no_genres_def)
  moreover have "(3::int) \<notin> set (map r_movieId (user_events spec_ratings 1))"
    by (simp add: user_events_def spec_ratings_def)
  ultimately show ?thesis
    using sort_values_desc_stable tie_recommend spec_recommend_empty
    by (simp add: by_score_then_id_def)
qed

theorem C3_witness:
  "\<exists>recs. fst (recommend_movies stable_sort_desc (build_model tie_ratings tie_movies) 1 1) = Inr recs \<and>
          length recs = 1"
proof -
  have u: "map_of (user_profiles (build_model tie_ratings tie_movies)) 1 = Some (Finite [1])"
    by (simp add: tie_model)
  have "set (rated_with_genres tie_ratings tie_movies) = {7, 3, 10}"
    by (simp add: rated_with_genres_def movie_genres_def tie_ratings_def tie_movies_def no_genres_def)
  moreover have "set (map r_movieId (user_events tie_ratings 1)) = {10, 11}"
    by (simp add: tie_ratings_def user_events_def)
  ultimately have "set (rated_with_genres tie_ratings tie_movies)
          - set (map r_movieId (user_events tie_ratings 1)) = {7, 3}"
    by auto
  then have "card (set (rated_with_genres tie_ratings tie_movies)
          - set (map r_movieId (user_events tie_ratings 1))) = 2"
    by simp
  with C3_recommend_sorted_length [OF sort_values_desc_stable u, of 1] show ?thesis
    by auto
qed

subsection \<open>C4\<close>

text \<open>
  C4. No movie of a raw rating event of the user (whether or not the event survives
  cleaning) is among the rows \<open>recommend_movies\<close> returns for that user.
\<close>

theorem C4_never_recommends_rated:
  assumes "sort_values_desc srt"
    and "fst (recommend_movies srt (build_model R M) u n) = Inr recs"
    and "rt \<in> set R" and "r_userId rt = u"
  shows "r_movieId rt \<notin> f_movieId ` set recs"
proof
  assume "r_movieId rt \<in> f_movieId ` set recs"
  then obtain c where c: "c \<in> set recs" "f_movieId c = r_movieId rt" by auto
  from recommend_movies_Inr [OF assms(2)] obtain v
    where v: "map_of (user_profiles (build_model R M)) u = Some (Finite v)" by blast
  from recommend_movies_built [OF v, of srt n] assms(2)
  have "recs = head n (srt (candidates (build_model R M) u v))" by simp
  with c(1) have "c \<in> set (candidates (build_model R M) u v)"
    using set_head [of n "srt (candidates (build_model R M) u v)"]
    by (auto simp: sort_values_desc_set [OF assms(1)])
  then have "f_movieId c \<notin> set (map r_movieId (user_events R u))"
    by (rule candidates_sound(2))
  with c(2) assms(3,4) show False by (auto simp: user_events_def)
qed

theorem C4_witness:
  "fst (recommend_movies stable_sort_desc (build_model tie_ratings tie_movies) 1 5) =
     Inr [\<lparr>f_movieId = 7, f_title = ''M7'', f_vector = [1], similarity = 1\<rparr>,
          \<lparr>f_movieId = 3, f_title = ''M3'', f_vector = [1], similarity = 1\<rparr>] \<and>
   \<lparr>r_userId = 1, r_movieId = 11, r_rating = 3, r_timestamp = 0\<rparr> \<in> set tie_ratings \<and>
   (11::int) \<notin> f_movieId ` set [\<lparr>f_movieId = 7, f_title = ''M7'', f_vector = [1], similarity = 1\<rparr>,
          \<lparr>f_movieId = 3, f_title = ''M3'', f_vector = [1], similarity = (1::real)\<rparr>]"
proof -
  have rt: "\<lparr>r_userId = 1, r_movieId = 11, r_rating = 3, r_timestamp = 0\<rparr> \<in> set tie_ratings"
    by (simp add: tie_ratings_def)
  from C4_never_recommends_rated [OF sort_values_desc_stable tie_recommend rt] rt tie_recommend
  show ?thesis by simp
qed

subsection \<open>C5\<close>

text \<open>
  C5 (as amended). \<open>recommend_movies\<close> leaves \<open>df_genres\<close>, the genre columns, the user
  profiles and the rows of \<open>movie_features\<close> (index, title, genre vector) as they were;
  what it does change is the \<open>similarity\<close> column of \<open>movie_features\<close>, which no query
  reads: every later \<open>predict_rating\<close> and \<open>recommend_movies\<close> returns what it would have
  returned before the call.
\<close>

theorem C5_recommend_keeps_model:
  "df_genres (snd (recommend_movies srt st u n)) = df_genres st \<and>
   genre_cols (snd (recommend_movies srt st u n)) = genre_cols st \<and>
   user_profiles (snd (recommend_movies srt st u n)) = user_profiles st \<and>
   mf_rows (movie_features (snd (recommend_movies srt st u n))) = mf_rows (movie_features st) \<and>
   predict_rating (snd (recommend_movies srt st u n)) u' m = predict_rating st u' m \<and>
   fst (recommend_movies srt (snd (recommend_movies srt st u n)) u' n') =
     fst (recommend_movies srt st u' n')"
  using recommend_movies_state [of srt st u n]
  by (auto simp: predict_rating_set_similarity recommend_movies_set_similarity)

text \<open>
  C5 as stated fails: after recommending for user 1 in the specification's scenario, the
  globals differ from the model that was built (the table has a \<open>similarity\<close> column).
\<close>

theorem C5_counterexample:
  "snd (recommend_movies stable_sort_desc (build_model spec_ratings spec_movies) 1 5)
     \<noteq> build_model spec_ratings spec_movies"
  by (simp add: spec_model query_defs)

theorem C5_witness:
  "mf_rows (movie_features (snd (recommend_movies stable_sort_desc (build_model spec_ratings spec_movies) 1 5)))
     = [\<lparr>f_movieId = 1, f_title = ''M1'', f_vector = [1, 0]\<rparr>,
        \<lparr>f_movieId = 2, f_title = ''M2'', f_vector = [0, 1]\<rparr>]"
  using C5_recommend_keeps_model [of stable_sort_desc "build_model spec_ratings spec_movies" 1 5]
  by (simp add: spec_model)

subsection \<open>C6\<close>

text \<open>
  C6 (as amended). Building the model from rearranged inputs (the same multiset of rating
  events and of movie rows) gives the same genre columns in the same order and, in exact
  arithmetic, the same user profiles; when no two different movie rows share a movie id,
  it also gives the same title and genre vector for every movie id of the catalog. (The
  sums of a profile are modelled as exact reals: the order in which the program adds
  floats is not part of the statement.)
\<close>

theorem C6_row_order_independent:
  assumes "mset R' = mset R" and "mset M' = mset M"
  shows "genre_cols (build_model R' M') = genre_cols (build_model R M) \<and>
         user_profiles (build_model R' M') = user_profiles (build_model R M) \<and>
         (unique_movie_ids M \<longrightarrow> catalog (build_model R' M') = catalog (build_model R M))"
proof -
  have sets: "set R' = set R" "set M' = set M"
    using assms by (auto dest: mset_eq_setD)
  have cs: "set (clean R' M') = set (clean R M)" and cm: "mset (clean R' M') = mset (clean R M)"
    using sets by (rule clean_set_cong, rule clean_mset_cong)
  have vocab: "vocabulary (clean R' M') = vocabulary (clean R M)"
    using cs by (rule vocabulary_cong)
  then have cols: "genre_cols (build_model R' M') = genre_cols (build_model R M)"
    by (simp add: build_model_sel dummy_columns_def)
  have "build_user_profiles (length (vocabulary (clean R M))) (get_dummies (clean R' M')) =
        build_user_profiles (length (vocabulary (clean R M))) (get_dummies (clean R M))"
    by (rule build_user_profiles_mset_cong [OF get_dummies_mset_cong [OF cm]])
       (simp add: length_dummies)
  then have profs: "user_profiles (build_model R' M') = user_profiles (build_model R M)"
    by (simp add: build_model_sel vocab)
  have "catalog (build_model R' M') = catalog (build_model R M)" if uniq: "unique_movie_ids M"
  proof (rule ext)
    fix m
    show "catalog (build_model R' M') m = catalog (build_model R M) m"
    proof (cases "find (\<lambda>r. movieId r = m) (clean R M)")
      case None
      then have "find (\<lambda>r. movieId r = m) (clean R' M') = None"
        by (simp add: find_None_set cs)
      with None show ?thesis by (simp add: catalog_built)
    next
      case (Some x)
      then have "find (\<lambda>r. movieId r = m) (clean R' M') \<noteq> None"
        by (auto simp: find_None_set cs dest: find_Some_mem)
      then obtain x' where x': "find (\<lambda>r. movieId r = m) (clean R' M') = Some x'" by auto
      from clean_first_row [OF Some] obtain mv where mv: "mv \<in> set M" "m_movieId mv = m"
        "title x = m_title mv"
        "find (\<lambda>g. g \<noteq> no_genres) (str_split (CHR ''|'') (m_genres mv)) = Some (genres x)"
        by blast
      from clean_first_row [OF x'] obtain mv' where mv': "mv' \<in> set M" "m_movieId mv' = m"
        "title x' = m_title mv'"
        "find (\<lambda>g. g \<noteq> no_genres) (str_split (CHR ''|'') (m_genres mv')) = Some (genres x')"
        unfolding sets by blast
      from mv(1,2) mv'(1,2) have "mv = mv'"
        by (intro unique_movie_idsD [OF uniq]) simp_all
      with mv mv' have "title x' = title x" "genres x' = genres x" by simp_all
      with Some x' show ?thesis by (simp add: catalog_built vocab)
    qed
  qed
  with cols profs show ?thesis by simp
qed

text \<open>
  C6 as stated fails: with two movie rows of the same id and different genres, the order
  of the two rows decides which genre the catalog records for the movie.
\<close>

theorem C6_counterexample:
  "mset (rev dup_movies) = mset dup_movies \<and>
   catalog (build_model dup_ratings dup_movies) 1 = Some (''M1'', [1, 0]) \<and>
   catalog (build_model dup_ratings (rev dup_movies)) 1 = Some (''M1'', [0, 1])"
  by (simp add: catalog_def dup_model dup_model_rev)

theorem C6_witness:
  "mset (rev spec_ratings) = mset spec_ratings \<and> mset (rev spec_movies) = mset spec_movies \<and>
   genre_cols (build_model (rev spec_ratings) (rev spec_movies)) = [''genres_Action'', ''genres_Comedy''] \<and>
   user_profiles (build_model (rev spec_ratings) (rev spec_movies)) = [(1, Finite [2 / 5, 3 / 5])] \<and>
   catalog (build_model (rev spec_ratings) (rev spec_movies)) 1 = Some (''M1'', [1, 0])"
proof -
  have uniq: "unique_movie_ids spec_movies"
    by (simp add: unique_movie_ids_def spec_movies_def)
  have "mset (rev spec_ratings) = mset spec_ratings" "mset (rev spec_movies) = mset spec_movies"
    by simp_all
  from C6_row_order_independent [OF this] uniq show ?thesis
    by (simp add: spec_model catalog_def)
qed

subsection \<open>C7\<close>

text \<open>
  C7 (as amended). For a user of the built model with a finite profile \<open>v\<close>:
  for a movie that has a genre and that some rating event rates, the catalog has a genre
  vector and \<open>predict_rating\<close> returns the cosine similarity of \<open>v\<close> and that vector times
  the sum of the components of \<open>v\<close>, with no clipping; for any other movie, also one
  that has a genre but that nobody rated, \<open>predict_rating\<close> fails with \<open>KeyError\<close>.
\<close>

theorem C7_predict_rating_formula:
  assumes "map_of (user_profiles (build_model R M)) u = Some (Finite v)"
  shows "(m \<in> set (rated_with_genres R M) \<longrightarrow>
            (\<exists>t vec. catalog (build_model R M) m = Some (t, vec) \<and>
               predict_rating (build_model R M) u m =
                 Inr (cosine v (map real_of_int vec) * sum_list v))) \<and>
         (m \<notin> set (rated_with_genres R M) \<longrightarrow>
            predict_rating (build_model R M) u m = Inl KeyError)"
proof (intro conjI impI)
  assume "m \<in> set (rated_with_genres R M)"
  then have "find (\<lambda>r. f_movieId r = m) (mf_rows (movie_features (build_model R M))) \<noteq> None"
    by (simp add: find_catalog_row)
  then obtain row
    where row: "find (\<lambda>r. f_movieId r = m) (mf_rows (movie_features (build_model R M))) = Some row"
    by auto
  then have "row \<in> set (mf_rows (movie_features (build_model R M)))"
    by (auto dest: find_Some_mem)
  with assms have "cosine_similarity (Finite v) [map real_of_int (f_vector row)] =
      Inr [cosine v (map real_of_int (f_vector row))]"
    by (rule cosine_similarity_built)
  with assms row have "predict_rating (build_model R M) u m =
      Inr (cosine v (map real_of_int (f_vector row)) * sum_list v)"
    unfolding predict_rating_def by simp
  moreover from row have "catalog (build_model R M) m = Some (f_title row, f_vector row)"
    by (simp add: catalog_find)
  ultimately show "\<exists>t vec. catalog (build_model R M) m = Some (t, vec) \<and>
      predict_rating (build_model R M) u m = Inr (cosine v (map real_of_int vec) * sum_list v)"
    by blast
next
  assume "m \<notin> set (rated_with_genres R M)"
  then have "find (\<lambda>r. f_movieId r = m) (mf_rows (movie_features (build_model R M))) = None"
    by (simp add: find_catalog_row)
  with assms show "predict_rating (build_model R M) u m = Inl KeyError"
    unfolding predict_rating_def by simp
qed

text \<open>
  C7 as stated fails: in the specification's scenario, movie 3 has a genre, user 1 has a
  profile, and \<open>predict_rating\<close> for the two fails with \<open>KeyError\<close>, because nobody rated
  movie 3.
\<close>

theorem C7_counterexample:
  "map_of (user_profiles (build_model spec_ratings spec_movies)) 1 = Some (Finite [2 / 5, 3 / 5]) \<and>
   movie_genres spec_movies 3 = [''Action''] \<and>
   predict_rating (build_model spec_ratings spec_movies) 1 3 = Inl KeyError"
proof -
  have "movie_genres spec_movies 3 = [''Action'']"
    by (simp add: movie_genres_def spec_movies_def no_genres_def)
  then show ?thesis
    by (simp add: spec_model predict_rating_def)
qed

text \<open>
  An instance where the prediction, 1, is above every observed rating (all are 1/2), and
  one of a movie that nobody rated.
\<close>

theorem C7_witness:
  "predict_rating (build_model low_ratings low_movies) 1 1 = Inr 1 \<and>
   list_all (\<lambda>rt. r_rating rt < 1) low_ratings \<and>
   predict_rating (build_model low_ratings low_movies) 1 2 = Inl KeyError"
proof -
  have u: "map_of (user_profiles (build_model low_ratings low_movies)) 1 = Some (Finite [1])"
    by (simp add: low_model)
  have r: "rated_with_genres low_ratings low_movies = [1]"
    by (simp add: rated_with_genres_def movie_genres_def low_ratings_def low_movies_def no_genres_def)
  have c: "catalog (build_model low_ratings low_movies) 1 = Some (''M1'', [1])"
    by (simp add: catalog_def low_model)
  have "cosine [1] [1] = 1"
    by (simp add: cosine_def l2_norm_def)
  with C7_predict_rating_formula [OF u, of 1] C7_predict_rating_formula [OF u, of 2] r c
  show ?thesis
    by (simp add: low_ratings_def)
qed

subsection \<open>C8\<close>

text \<open>
  C8. For an unknown user, \<open>recommend_movies\<close> and \<open>predict_rating\<close> both fail with
  \<open>KeyError\<close> (so \<open>recommend_movies\<close> does not return an empty list), and
  \<open>recommend_movies\<close> leaves the globals as they were; for a movie that is not in
  \<open>movie_features\<close>, \<open>predict_rating\<close> fails with \<open>KeyError\<close>.
\<close>

theorem C8_unknown_user_or_movie:
  "(map_of (user_profiles st) u = None \<longrightarrow>
      recommend_movies srt st u n = (Inl KeyError, st) \<and> predict_rating st u m = Inl KeyError) \<and>
   (find (\<lambda>r. f_movieId r = m) (mf_rows (movie_features st)) = None \<longrightarrow>
      predict_rating st u m = Inl KeyError)"
  by (auto simp: recommend_movies_def predict_rating_def split: option.splits)

theorem C8_witness:
  "map_of (user_profiles (build_model spec_ratings spec_movies)) 9 = None \<and>
   find (\<lambda>r. f_movieId r = 3) (mf_rows (movie_features (build_model spec_ratings spec_movies))) = None \<and>
   recommend_movies stable_sort_desc (build_model spec_ratings spec_movies) 9 5 =
     (Inl KeyError, build_model spec_ratings spec_movies) \<and>
   predict_rating (build_model spec_ratings spec_movies) 9 3 = Inl KeyError"
  using C8_unknown_user_or_movie [of "build_model spec_ratings spec_movies" 9 stable_sort_desc 5 3]
  by (simp add: spec_model)

subsection \<open>C9\<close>

text \<open>
  C9 (as amended). For a finite query vector and a movie vector of the same, non-zero
  dimension, \<open>cosine_similarity\<close> returns a score: no division of the computation is by
  zero (a zero norm is replaced by 1 before dividing), the score is the cosine of the two
  vectors, which in exact arithmetic lies between -1 and 1, and it is 0 when either
  vector has zero norm. For a profile that is not finite, \<open>cosine_similarity\<close> raises
  \<open>ValueError\<close>.
\<close>

theorem C9_similarity_total_and_bounded:
  assumes "length b = length a" and "a \<noteq> []"
  shows "cosine_similarity (Finite a) [b] = Inr [cosine a b] \<and>
         - 1 \<le> cosine a b \<and> cosine a b \<le> 1 \<and>
         (l2_norm a = 0 \<or> l2_norm b = 0 \<longrightarrow> cosine_similarity (Finite a) [b] = Inr [0]) \<and>
         cosine_similarity NonFinite [b] = Inl ValueError"
proof -
  have "cosine_similarity (Finite a) [b] = Inr (map (cosine a) [b])"
    using assms by (intro cosine_similarity_Finite) simp_all
  then have res: "cosine_similarity (Finite a) [b] = Inr [cosine a b]" by simp
  moreover have "cosine_similarity NonFinite [b] = Inl ValueError"
    by (simp add: cosine_similarity_def)
  ultimately show ?thesis
    by (simp add: cosine_le_one cosine_ge_minus_one cosine_zero_norm)
qed

text \<open>
  C9 as stated fails: a user whose only rating is 0 has no weighted preference in any
  genre, yet the profile is not the zero vector: the profile builder divides 0 by 0, the
  profile is NaN, and the similarity computation of both queries raises \<open>ValueError\<close>
  instead of returning 0.
\<close>

theorem C9_counterexample:
  "map_of (user_profiles (build_model zero_ratings low_movies)) 1 = Some NonFinite \<and>
   fst (recommend_movies stable_sort_desc (build_model zero_ratings low_movies) 1 5) = Inl ValueError \<and>
   predict_rating (build_model zero_ratings low_movies) 1 1 = Inl ValueError"
  by (simp add: zero_model recommend_movies_def predict_rating_def cosine_similarity_def)

theorem C9_witness:
  "cosine_similarity (Finite [0, 0]) [[1, 0]] = Inr [0] \<and>
   cosine_similarity NonFinite [[1, 0]] = Inl ValueError"
proof -
  have "l2_norm [0, 0] = 0" by (simp add: l2_norm_def)
  with C9_similarity_total_and_bounded [of "[1, 0]" "[0, 0]"] show ?thesis
    by (simp add: cosine_zero_norm)
qed

subsection \<open>C10\<close>

text \<open>
  C10. When every rating is positive, each user of the built model has a finite profile
  whose components sum to exactly 1, and \<open>predict_rating\<close> for that user and any catalog
  movie is the cosine similarity itself.
\<close>

theorem C10_profile_sums_to_one:
  assumes "\<forall>rt \<in> set R. 0 < r_rating rt"
    and "map_of (user_profiles (build_model R M)) u = Some p"
  shows "\<exists>v. p = Finite v \<and> sum_list v = 1 \<and>
           (\<forall>m row. find (\<lambda>r. f_movieId r = m) (mf_rows (movie_features (build_model R M))) = Some row
              \<longrightarrow> predict_rating (build_model R M) u m =
                    Inr (cosine v (map real_of_int (f_vector row))))"
proof -
  let ?df = "clean R M"
  let ?udf = "filter (\<lambda>r. userId r = u) (get_dummies ?df)"
  from built_profile [OF assms(2)]
  have u: "u \<in> userId ` set ?df" and p: "p = get_user_profile (length (vocabulary ?df)) ?udf"
    by simp_all
  have pos: "0 < rating r" if "r \<in> set ?udf" for r
  proof -
    from that obtain r0 where "r0 \<in> set ?df" "rating r = rating r0"
      by (auto dest: get_dummies_sel)
    with assms(1) show ?thesis by (simp add: rating_clean_pos)
  qed
  have "?udf \<noteq> []"
  proof -
    have "userId ` set (get_dummies ?df) = userId ` set ?df"
      using userId_get_dummies [of ?df] by (metis set_map)
    with u have "u \<in> userId ` set (get_dummies ?df)" by simp
    then obtain r where "r \<in> set (get_dummies ?df)" "userId r = u"
      by blast
    then have "r \<in> set ?udf" by simp
    then have "0 < length ?udf" by (rule length_pos_if_in_set)
    then show ?thesis by simp
  qed
  then have "0 < sum_list (map rating ?udf)"
    using pos by (intro sum_list_positive) auto
  then obtain v where v: "p = Finite v"
    by (auto simp: p get_user_profile_def Let_def)
  have s: "sum_list v = 1"
    by (rule profile_sum [of ?udf ?df]) (use p v in auto)
  have "predict_rating (build_model R M) u m = Inr (cosine v (map real_of_int (f_vector row)))"
    if "find (\<lambda>r. f_movieId r = m) (mf_rows (movie_features (build_model R M))) = Some row"
    for m row
  proof -
    from that have "row \<in> set (mf_rows (movie_features (build_model R M)))"
      by (auto dest: find_Some_mem)
    with assms(2) [unfolded v]
    have "cosine_similarity (Finite v) [map real_of_int (f_vector row)] =
        Inr [cosine v (map real_of_int (f_vector row))]"
      by (rule cosine_similarity_built)
    with assms(2) that s show ?thesis
      unfolding predict_rating_def v by simp
  qed
  with v s show ?thesis by blast
qed

theorem C10_witness:
  "map_of (user_profiles (build_model spec_ratings spec_movies)) 1 = Some (Finite [2 / 5, 3 / 5]) \<and>
   sum_list [2 / 5, 3 / 5 :: real] = 1 \<and>
   predict_rating (build_model spec_ratings spec_movies) 1 2 = Inr (cosine [2 / 5, 3 / 5] [0, 1])"
proof -
  have pos: "\<forall>rt \<in> set spec_ratings. 0 < r_rating rt"
    by (simp add: spec_ratings_def)
  have u: "map_of (user_profiles (build_model spec_ratings spec_movies)) 1 = Some (Finite [2 / 5, 3 / 5])"
    by (simp add: spec_model)
  have m: "find (\<lambda>r. f_movieId r = 2) (mf_rows (movie_features (build_model spec_ratings spec_movies)))
             = Some \<lparr>f_movieId = 2, f_title = ''M2'', f_vector = [0, 1]\<rparr>"
    by (simp add: spec_model)
  from C10_profile_sums_to_one [OF pos u] m u show ?thesis
    by auto
qed

end
